theory Spec2Isabelle
  imports Main "HOL-Library.Word"
begin

section \<open>IPv4 address conflict detection: the session of sd-ipv4acd.c\<close>

text \<open>
  The session object \<open>struct sd_ipv4acd\<close> is a record, the state enum a datatype, and
  every function of the file a function from the session (and the answers of the
  outside world during the call) to the updated session, the value returned and the
  list of things the call did to the outside: ARP frames put on the socket and
  invocations of the embedder's callback.

  Unsigned counters and \<open>usec_t\<close> time stamps are machine words, so that \<open>++\<close> and
  \<open>+\<close> wrap as in C. The plain \<open>int\<close> fields (\<open>ifindex\<close>, \<open>fd\<close>) are never computed
  with and are integers. The session pointer \<open>ll\<close> is a value, so the
  \<open>assert(ll)\<close> and \<open>assert_return(ll, -EINVAL)\<close> checks always pass; a pointer
  argument that may be \<open>NULL\<close> is an option.
\<close>

subsection \<open>Types and constants\<close>

type_synonym usec_t = "64 word"
type_synonym be32_t = "32 word"
type_synonym ether_addr = "48 word"
type_synonym sd_event = nat

text \<open>
  Modelled from the spec: \<open>USEC_PER_SEC\<close> comes from time-util.h, which is not part
  of the sources at hand. The spec gives every interval in seconds and \<open>usec_t\<close>
  counts microseconds.
\<close>

definition USEC_PER_SEC :: usec_t where
  "USEC_PER_SEC = 1000000"

definition PROBE_WAIT_USEC :: usec_t where
  "PROBE_WAIT_USEC = 1 * USEC_PER_SEC"

definition PROBE_NUM :: "32 word" where
  "PROBE_NUM = 3"

definition PROBE_MIN_USEC :: usec_t where
  "PROBE_MIN_USEC = 1 * USEC_PER_SEC"

definition PROBE_MAX_USEC :: usec_t where
  "PROBE_MAX_USEC = 2 * USEC_PER_SEC"

definition ANNOUNCE_WAIT_USEC :: usec_t where
  "ANNOUNCE_WAIT_USEC = 2 * USEC_PER_SEC"

definition ANNOUNCE_NUM :: "32 word" where
  "ANNOUNCE_NUM = 2"

definition ANNOUNCE_INTERVAL_USEC :: usec_t where
  "ANNOUNCE_INTERVAL_USEC = 2 * USEC_PER_SEC"

definition MAX_CONFLICTS :: "32 word" where
  "MAX_CONFLICTS = 10"

definition RATE_LIMIT_INTERVAL_USEC :: usec_t where
  "RATE_LIMIT_INTERVAL_USEC = 60 * USEC_PER_SEC"

definition DEFEND_INTERVAL_USEC :: usec_t where
  "DEFEND_INTERVAL_USEC = 10 * USEC_PER_SEC"

text \<open>The error numbers of Linux's errno.h that the file names.\<close>

definition EINTR :: int where "EINTR = 4"
definition EAGAIN :: int where "EAGAIN = 11"
definition ENOMEM :: int where "ENOMEM = 12"
definition EBUSY :: int where "EBUSY = 16"
definition EINVAL :: int where "EINVAL = 22"

text \<open>\<open>sizeof(struct ether_arp)\<close>: an 8 byte ARP header, two 6 byte hardware
  addresses and two 4 byte protocol addresses.\<close>

definition sizeof_ether_arp :: int where
  "sizeof_ether_arp = 28"

datatype IPv4ACDState =
    IPV4ACD_STATE_INIT
  | IPV4ACD_STATE_STARTED
  | IPV4ACD_STATE_WAITING_PROBE
  | IPV4ACD_STATE_PROBING
  | IPV4ACD_STATE_WAITING_ANNOUNCE
  | IPV4ACD_STATE_ANNOUNCING
  | IPV4ACD_STATE_RUNNING

text \<open>The events of sd-ipv4acd.h that the callback receives.\<close>

datatype event =
    SD_IPV4ACD_EVENT_BIND
  | SD_IPV4ACD_EVENT_CONFLICT
  | SD_IPV4ACD_EVENT_STOP

text \<open>
  The session. \<open>receive_message_event_source\<close> holds the descriptor the source
  watches, \<open>timer_event_source\<close> the deadline of the one-shot the session holds;
  \<open>None\<close> is the \<open>NULL\<close> pointer. \<open>callback\<close> says whether a callback is
  registered; \<open>userdata\<close> is only ever handed back to the callback and is left out.
\<close>

record sd_ipv4acd =
  n_ref :: "32 word"
  state :: IPv4ACDState
  ifindex :: int
  fd :: int
  n_iteration :: "32 word"
  n_conflict :: "32 word"
  receive_message_event_source :: "int option"
  timer_event_source :: "usec_t option"
  defend_window :: usec_t
  address :: be32_t
  mac_addr :: ether_addr
  event :: "sd_event option"
  event_priority :: int
  callback :: bool

text \<open>
  What a call does to the outside world: a probe or an announcement written to the
  socket (with the arguments of \<open>arp_send_probe\<close> and \<open>arp_send_announcement\<close>),
  or the callback invoked with an event.
\<close>

datatype action =
    Arp_send_probe int int be32_t ether_addr
  | Arp_send_announcement int int be32_t ether_addr
  | Callback event

text \<open>
  What the outside world answers during one call: the random number drawn, the
  clock of the event loop, the return values of the event loop, of the socket
  functions and of \<open>recv\<close>, the sender protocol address of the received frame
  (the four bytes of \<open>arp_spa\<close>, read the way \<open>address\<close> is stored), and the
  default event loop \<open>sd_event_default\<close> hands out.
\<close>

record env =
  random_u64 :: "64 word"
  event_now_r :: int
  event_now :: usec_t
  add_time_r :: int
  timer_priority_r :: int
  arp_send_r :: int
  recv_n :: int
  recv_errno :: int
  arp_spa :: be32_t
  bind_r :: int
  add_io_r :: int
  io_priority_r :: int
  event_default_r :: int
  event_default :: sd_event

text \<open>An \<open>assert_se\<close> or \<open>assert_not_reached\<close> that fails aborts the process.\<close>

datatype abort =
    Assert_sd_event_now
  | Assert_not_reached

subsection \<open>State changes, reset, notification, stop\<close>

definition ipv4acd_set_state :: "sd_ipv4acd \<Rightarrow> IPv4ACDState \<Rightarrow> bool \<Rightarrow> sd_ipv4acd" where
  "ipv4acd_set_state ll st reset_counter =
     (if st = state ll \<and> \<not> reset_counter
      then ll\<lparr>n_iteration := n_iteration ll + 1\<rparr>
      else ll\<lparr>state := st, n_iteration := 0\<rparr>)"

definition ipv4acd_reset :: "sd_ipv4acd \<Rightarrow> sd_ipv4acd" where
  "ipv4acd_reset ll =
     ipv4acd_set_state
       (ll\<lparr>timer_event_source := None, receive_message_event_source := None, fd := -1\<rparr>)
       IPV4ACD_STATE_INIT True"

definition ipv4acd_client_notify :: "sd_ipv4acd \<Rightarrow> event \<Rightarrow> action list" where
  "ipv4acd_client_notify ll ev = (if \<not> callback ll then [] else [Callback ev])"

definition sd_ipv4acd_stop :: "sd_ipv4acd \<Rightarrow> int \<times> sd_ipv4acd \<times> action list" where
  "sd_ipv4acd_stop ll =
     (let ll1 = ipv4acd_reset ll
      in (0, ll1, ipv4acd_client_notify ll1 SD_IPV4ACD_EVENT_STOP))"

text \<open>The label \<open>fail:\<close> of both handlers: stop the session, return 0. The actions
  already done in the call come first.\<close>

definition handler_fail ::
  "sd_ipv4acd \<Rightarrow> action list \<Rightarrow> abort + (int \<times> sd_ipv4acd \<times> action list)" where
  "handler_fail ll done =
     (case sd_ipv4acd_stop ll of (r, ll1, acts) \<Rightarrow> Inr (0, ll1, done @ acts))"

subsection \<open>Scheduling the next wakeup\<close>

definition ipv4acd_set_next_wakeup ::
  "env \<Rightarrow> sd_ipv4acd \<Rightarrow> usec_t \<Rightarrow> usec_t \<Rightarrow> abort + (int \<times> sd_ipv4acd)" where
  "ipv4acd_set_next_wakeup e ll usec random_usec =
     (let next_timeout =
            (if random_usec > 0 then usec + random_u64 e mod random_usec else usec)
      in if event_now_r e < 0 then Inl Assert_sd_event_now
         else if add_time_r e < 0 then Inr (add_time_r e, ll)
         else if timer_priority_r e < 0 then Inr (timer_priority_r e, ll)
         else Inr (0, ll\<lparr>timer_event_source := Some (event_now e + next_timeout)\<rparr>))"

definition ipv4acd_arp_conflict :: "sd_ipv4acd \<Rightarrow> be32_t \<Rightarrow> bool" where
  "ipv4acd_arp_conflict ll spa = (if spa = address ll then True else False)"

subsection \<open>The timer handler\<close>

text \<open>The body under the labels \<open>WAITING_PROBE\<close> and \<open>PROBING\<close>.\<close>

definition on_timeout_probe ::
  "env \<Rightarrow> sd_ipv4acd \<Rightarrow> abort + (int \<times> sd_ipv4acd \<times> action list)" where
  "on_timeout_probe e ll =
     (if arp_send_r e < 0 then handler_fail ll []
      else
        let sent = [Arp_send_probe (fd ll) (ifindex ll) (address ll) (mac_addr ll)] in
        if n_iteration ll < PROBE_NUM - 2 then
          (case ipv4acd_set_next_wakeup e
                  (ipv4acd_set_state ll IPV4ACD_STATE_PROBING False)
                  PROBE_MIN_USEC (PROBE_MAX_USEC - PROBE_MIN_USEC) of
             Inl a \<Rightarrow> Inl a
           | Inr (r, ll1) \<Rightarrow> if r < 0 then handler_fail ll1 sent else Inr (0, ll1, sent))
        else
          (case ipv4acd_set_next_wakeup e
                  (ipv4acd_set_state ll IPV4ACD_STATE_WAITING_ANNOUNCE True)
                  ANNOUNCE_WAIT_USEC 0 of
             Inl a \<Rightarrow> Inl a
           | Inr (r, ll1) \<Rightarrow> if r < 0 then handler_fail ll1 sent else Inr (0, ll1, sent)))"

text \<open>The body under the label \<open>WAITING_ANNOUNCE\<close>, into which \<open>ANNOUNCING\<close>
  falls through.\<close>

definition on_timeout_announce ::
  "env \<Rightarrow> sd_ipv4acd \<Rightarrow> abort + (int \<times> sd_ipv4acd \<times> action list)" where
  "on_timeout_announce e ll =
     (if arp_send_r e < 0 then handler_fail ll []
      else
        let sent = [Arp_send_announcement (fd ll) (ifindex ll) (address ll) (mac_addr ll)] in
        (case ipv4acd_set_next_wakeup e
                (ipv4acd_set_state ll IPV4ACD_STATE_ANNOUNCING False)
                ANNOUNCE_INTERVAL_USEC 0 of
           Inl a \<Rightarrow> Inl a
         | Inr (r, ll1) \<Rightarrow>
             if r < 0 then handler_fail ll1 sent
             else if n_iteration ll1 = 0
               then (let ll2 = ll1\<lparr>n_conflict := 0\<rparr>
                     in Inr (0, ll2, sent @ ipv4acd_client_notify ll2 SD_IPV4ACD_EVENT_BIND))
               else Inr (0, ll1, sent)))"

definition ipv4acd_on_timeout ::
  "env \<Rightarrow> sd_ipv4acd \<Rightarrow> abort + (int \<times> sd_ipv4acd \<times> action list)" where
  "ipv4acd_on_timeout e ll =
     (case state ll of
        IPV4ACD_STATE_STARTED \<Rightarrow>
          (let ll1 = ipv4acd_set_state ll IPV4ACD_STATE_WAITING_PROBE True in
           if n_conflict ll1 \<ge> MAX_CONFLICTS then
             (case ipv4acd_set_next_wakeup e ll1 RATE_LIMIT_INTERVAL_USEC PROBE_WAIT_USEC of
                Inl a \<Rightarrow> Inl a
              | Inr (r, ll2) \<Rightarrow>
                  if r < 0 then handler_fail ll2 [] else Inr (0, ll2\<lparr>n_conflict := 0\<rparr>, []))
           else
             (case ipv4acd_set_next_wakeup e ll1 0 PROBE_WAIT_USEC of
                Inl a \<Rightarrow> Inl a
              | Inr (r, ll2) \<Rightarrow>
                  if r < 0 then handler_fail ll2 [] else Inr (0, ll2, [])))
      | IPV4ACD_STATE_WAITING_PROBE \<Rightarrow> on_timeout_probe e ll
      | IPV4ACD_STATE_PROBING \<Rightarrow> on_timeout_probe e ll
      | IPV4ACD_STATE_ANNOUNCING \<Rightarrow>
          (if n_iteration ll \<ge> ANNOUNCE_NUM - 1
           then Inr (0, ipv4acd_set_state ll IPV4ACD_STATE_RUNNING False, [])
           else on_timeout_announce e ll)
      | IPV4ACD_STATE_WAITING_ANNOUNCE \<Rightarrow> on_timeout_announce e ll
      | _ \<Rightarrow> Inl Assert_not_reached)"

subsection \<open>The packet handler\<close>

definition ipv4acd_on_conflict :: "sd_ipv4acd \<Rightarrow> sd_ipv4acd \<times> action list" where
  "ipv4acd_on_conflict ll =
     (let ll1 = ipv4acd_reset (ll\<lparr>n_conflict := n_conflict ll + 1\<rparr>)
      in (ll1, ipv4acd_client_notify ll1 SD_IPV4ACD_EVENT_CONFLICT))"

text \<open>The body under the labels \<open>ANNOUNCING\<close> and \<open>RUNNING\<close>.\<close>

definition on_packet_defend ::
  "env \<Rightarrow> sd_ipv4acd \<Rightarrow> abort + (int \<times> sd_ipv4acd \<times> action list)" where
  "on_packet_defend e ll =
     (if ipv4acd_arp_conflict ll (arp_spa e) then
        (if event_now_r e < 0 then Inl Assert_sd_event_now
         else
           let ts = event_now e in
           if ts > defend_window ll then
             (let ll1 = ll\<lparr>defend_window := ts + DEFEND_INTERVAL_USEC\<rparr> in
              if arp_send_r e < 0 then handler_fail ll1 []
              else Inr (0, ll1,
                [Arp_send_announcement (fd ll1) (ifindex ll1) (address ll1) (mac_addr ll1)]))
           else (case ipv4acd_on_conflict ll of (ll1, acts) \<Rightarrow> Inr (0, ll1, acts)))
      else Inr (0, ll, []))"

definition ipv4acd_on_packet ::
  "env \<Rightarrow> sd_ipv4acd \<Rightarrow> abort + (int \<times> sd_ipv4acd \<times> action list)" where
  "ipv4acd_on_packet e ll =
     (if recv_n e < 0 then
        (if recv_errno e = EAGAIN \<or> recv_errno e = EINTR then Inr (0, ll, [])
         else handler_fail ll [])
      else if recv_n e \<noteq> sizeof_ether_arp then Inr (0, ll, [])
      else
        (case state ll of
           IPV4ACD_STATE_ANNOUNCING \<Rightarrow> on_packet_defend e ll
         | IPV4ACD_STATE_RUNNING \<Rightarrow> on_packet_defend e ll
         | IPV4ACD_STATE_WAITING_PROBE \<Rightarrow>
             (case ipv4acd_on_conflict ll of (ll1, acts) \<Rightarrow> Inr (0, ll1, acts))
         | IPV4ACD_STATE_PROBING \<Rightarrow>
             (case ipv4acd_on_conflict ll of (ll1, acts) \<Rightarrow> Inr (0, ll1, acts))
         | IPV4ACD_STATE_WAITING_ANNOUNCE \<Rightarrow>
             (case ipv4acd_on_conflict ll of (ll1, acts) \<Rightarrow> Inr (0, ll1, acts))
         | _ \<Rightarrow> Inl Assert_not_reached))"


subsection \<open>The public functions\<close>

text \<open>\<open>sd_ipv4acd_new\<close>: the argument says whether \<open>new0\<close> finds memory; the
  object is zeroed but for the four fields the function sets.\<close>

definition sd_ipv4acd_new :: "bool \<Rightarrow> int \<times> sd_ipv4acd option" where
  "sd_ipv4acd_new alloc_ok =
     (if \<not> alloc_ok then (- ENOMEM, None)
      else (0, Some \<lparr>n_ref = 1, state = IPV4ACD_STATE_INIT, ifindex = -1, fd = -1,
                     n_iteration = 0, n_conflict = 0,
                     receive_message_event_source = None, timer_event_source = None,
                     defend_window = 0, address = 0, mac_addr = 0,
                     event = None, event_priority = 0, callback = False\<rparr>))"

definition sd_ipv4acd_set_ifindex :: "sd_ipv4acd \<Rightarrow> int \<Rightarrow> int \<times> sd_ipv4acd" where
  "sd_ipv4acd_set_ifindex ll i =
     (if \<not> i > 0 then (- EINVAL, ll)
      else if state ll \<noteq> IPV4ACD_STATE_INIT then (- EBUSY, ll)
      else (0, ll\<lparr>ifindex := i\<rparr>))"

definition sd_ipv4acd_set_mac :: "sd_ipv4acd \<Rightarrow> ether_addr option \<Rightarrow> int \<times> sd_ipv4acd" where
  "sd_ipv4acd_set_mac ll addr =
     (case addr of
        None \<Rightarrow> (- EINVAL, ll)
      | Some a \<Rightarrow>
          if state ll \<noteq> IPV4ACD_STATE_INIT then (- EBUSY, ll)
          else (0, ll\<lparr>mac_addr := a\<rparr>))"

definition sd_ipv4acd_detach_event :: "sd_ipv4acd \<Rightarrow> int \<times> sd_ipv4acd" where
  "sd_ipv4acd_detach_event ll = (0, ll\<lparr>event := None\<rparr>)"

text \<open>The \<open>int64_t\<close> priority is stored in an \<open>int\<close>: its low 32 bits, signed.\<close>

definition sd_ipv4acd_attach_event ::
  "env \<Rightarrow> sd_ipv4acd \<Rightarrow> sd_event option \<Rightarrow> int \<Rightarrow> int \<times> sd_ipv4acd" where
  "sd_ipv4acd_attach_event e ll ev priority =
     (if event ll \<noteq> None then (- EBUSY, ll)
      else
        (case ev of
           Some v \<Rightarrow> (0, ll\<lparr>event := Some v,
                              event_priority := sint (word_of_int priority :: 32 word)\<rparr>)
         | None \<Rightarrow>
             if event_default_r e < 0 then (event_default_r e, ll)
             else (0, ll\<lparr>event := Some (event_default e),
                          event_priority := sint (word_of_int priority :: 32 word)\<rparr>)))"

definition sd_ipv4acd_set_callback :: "sd_ipv4acd \<Rightarrow> bool \<Rightarrow> int \<times> sd_ipv4acd" where
  "sd_ipv4acd_set_callback ll cb = (0, ll\<lparr>callback := cb\<rparr>)"

definition sd_ipv4acd_set_address :: "sd_ipv4acd \<Rightarrow> be32_t option \<Rightarrow> int \<times> sd_ipv4acd" where
  "sd_ipv4acd_set_address ll addr =
     (case addr of
        None \<Rightarrow> (- EINVAL, ll)
      | Some s_addr \<Rightarrow>
          if state ll \<noteq> IPV4ACD_STATE_INIT then (- EBUSY, ll)
          else (0, ll\<lparr>address := s_addr\<rparr>))"

definition sd_ipv4acd_is_running :: "sd_ipv4acd \<Rightarrow> bool" where
  "sd_ipv4acd_is_running ll = (state ll \<noteq> IPV4ACD_STATE_INIT)"

text \<open>
  Modelled from the spec: \<open>ether_addr_is_null\<close> comes from ether-addr-util.h, which
  is not part of the sources at hand; the spec asks for a MAC address that is
  non-zero at \<open>start\<close>.
\<close>

definition ether_addr_is_null :: "ether_addr \<Rightarrow> bool" where
  "ether_addr_is_null a = (a = 0)"

definition sd_ipv4acd_start ::
  "env \<Rightarrow> sd_ipv4acd \<Rightarrow> abort + (int \<times> sd_ipv4acd \<times> action list)" where
  "sd_ipv4acd_start e ll =
     (if event ll = None then Inr (- EINVAL, ll, [])
      else if \<not> ifindex ll > 0 then Inr (- EINVAL, ll, [])
      else if address ll = 0 then Inr (- EINVAL, ll, [])
      else if ether_addr_is_null (mac_addr ll) then Inr (- EINVAL, ll, [])
      else if state ll \<noteq> IPV4ACD_STATE_INIT then Inr (- EBUSY, ll, [])
      else if bind_r e < 0 then Inr (bind_r e, ll, [])
      else
        let ll1 = ll\<lparr>fd := bind_r e, defend_window := 0, n_conflict := 0\<rparr> in
        if add_io_r e < 0 then Inr (add_io_r e, ipv4acd_reset ll1, [])
        else
          let ll2 = ll1\<lparr>receive_message_event_source := Some (fd ll1)\<rparr> in
          if io_priority_r e < 0 then Inr (io_priority_r e, ipv4acd_reset ll2, [])
          else
            (case ipv4acd_set_next_wakeup e ll2 0 0 of
               Inl a \<Rightarrow> Inl a
             | Inr (r, ll3) \<Rightarrow>
                 if r < 0 then Inr (r, ipv4acd_reset ll3, [])
                 else Inr (0, ipv4acd_set_state ll3 IPV4ACD_STATE_STARTED True, [])))"

subsection \<open>Runs of a session\<close>

text \<open>
  What can happen to a session: the embedder calls a public function, or the event
  loop dispatches one of the two sources the session holds. A source that does not
  exist is not dispatched, and nothing happens. The callback is always the last
  thing a function does with the session, so whatever the embedder calls from
  inside it is a later call of the run.
\<close>

datatype call =
    Set_ifindex int
  | Set_mac "ether_addr option"
  | Set_address "be32_t option"
  | Set_callback bool
  | Attach_event env "sd_event option" int
  | Detach_event
  | Start env
  | Stop
  | Timer env
  | Packet env

fun exec :: "call \<Rightarrow> sd_ipv4acd \<Rightarrow> abort + (int \<times> sd_ipv4acd \<times> action list)" where
  "exec (Set_ifindex i) ll = (case sd_ipv4acd_set_ifindex ll i of (r, ll1) \<Rightarrow> Inr (r, ll1, []))"
| "exec (Set_mac a) ll = (case sd_ipv4acd_set_mac ll a of (r, ll1) \<Rightarrow> Inr (r, ll1, []))"
| "exec (Set_address a) ll = (case sd_ipv4acd_set_address ll a of (r, ll1) \<Rightarrow> Inr (r, ll1, []))"
| "exec (Set_callback cb) ll = (case sd_ipv4acd_set_callback ll cb of (r, ll1) \<Rightarrow> Inr (r, ll1, []))"
| "exec (Attach_event e ev p) ll =
     (case sd_ipv4acd_attach_event e ll ev p of (r, ll1) \<Rightarrow> Inr (r, ll1, []))"
| "exec Detach_event ll = (case sd_ipv4acd_detach_event ll of (r, ll1) \<Rightarrow> Inr (r, ll1, []))"
| "exec (Start e) ll = sd_ipv4acd_start e ll"
| "exec Stop ll = Inr (sd_ipv4acd_stop ll)"
| "exec (Timer e) ll =
     (if timer_event_source ll = None then Inr (0, ll, []) else ipv4acd_on_timeout e ll)"
| "exec (Packet e) ll =
     (if receive_message_event_source ll = None then Inr (0, ll, []) else ipv4acd_on_packet e ll)"

fun exec_all :: "call list \<Rightarrow> sd_ipv4acd \<Rightarrow> abort + (sd_ipv4acd \<times> action list)" where
  "exec_all [] ll = Inr (ll, [])"
| "exec_all (c # cs) ll =
     (case exec c ll of
        Inl a \<Rightarrow> Inl a
      | Inr (r, ll1, acts) \<Rightarrow>
          (case exec_all cs ll1 of
             Inl a \<Rightarrow> Inl a
           | Inr (ll2, acts2) \<Rightarrow> Inr (ll2, acts @ acts2)))"

inductive reachable :: "sd_ipv4acd \<Rightarrow> bool" where
  created: "sd_ipv4acd_new True = (r, Some ll) \<Longrightarrow> reachable ll"
| step: "reachable ll \<Longrightarrow> exec c ll = Inr (r, ll1, acts) \<Longrightarrow> reachable ll1"

text \<open>A call in which no send and no scheduling fails and the clock can be read.\<close>

definition no_errors :: "env \<Rightarrow> bool" where
  "no_errors e =
     (event_now_r e \<ge> 0 \<and> add_time_r e \<ge> 0 \<and> timer_priority_r e \<ge> 0 \<and> arp_send_r e \<ge> 0)"


subsection \<open>A concrete link\<close>

text \<open>
  Scenario S1 of the specification: interface 2, MAC address 02:00:00:00:00:01,
  address 169.254.7.7, a callback registered. In \<open>scenario_env\<close> nothing fails,
  the clock reads 5 s, and the frame received, if one is, is a full ARP frame sent
  from 169.254.7.7.
\<close>

definition scenario_mac :: ether_addr where
  "scenario_mac = 0x020000000001"

definition scenario_address :: be32_t where
  "scenario_address = 0xA9FE0707"

definition scenario_env :: env where
  "scenario_env =
     \<lparr>random_u64 = 123456789, event_now_r = 0, event_now = 5000000, add_time_r = 0,
      timer_priority_r = 0, arp_send_r = 0, recv_n = 28, recv_errno = 0,
      arp_spa = scenario_address, bind_r = 3, add_io_r = 0, io_priority_r = 0,
      event_default_r = 0, event_default = 1\<rparr>"

definition new_session :: sd_ipv4acd where
  "new_session =
     \<lparr>n_ref = 1, state = IPV4ACD_STATE_INIT, ifindex = -1, fd = -1,
      n_iteration = 0, n_conflict = 0,
      receive_message_event_source = None, timer_event_source = None,
      defend_window = 0, address = 0, mac_addr = 0,
      event = None, event_priority = 0, callback = False\<rparr>"

definition configure :: "call list" where
  "configure =
     [Attach_event scenario_env None 0, Set_ifindex 2, Set_mac (Some scenario_mac),
      Set_address (Some scenario_address), Set_callback True]"

text \<open>The session of S1 in a given state, as \<open>configure\<close> and \<open>start\<close> leave its
  other fields.\<close>

definition scenario_session :: "IPv4ACDState \<Rightarrow> sd_ipv4acd" where
  "scenario_session st =
     \<lparr>n_ref = 1, state = st, ifindex = 2, fd = 3,
      n_iteration = 0, n_conflict = 0,
      receive_message_event_source = Some 3, timer_event_source = Some 5000000,
      defend_window = 0, address = scenario_address, mac_addr = scenario_mac,
      event = Some 1, event_priority = 0, callback = True\<rparr>"


subsection \<open>Predicates on sessions and runs\<close>

text \<open>The states from \<open>start\<close> up to the first announcement.\<close>

definition before_announce :: "IPv4ACDState \<Rightarrow> bool" where
  "before_announce st =
     (st = IPV4ACD_STATE_STARTED \<or> st = IPV4ACD_STATE_WAITING_PROBE
      \<or> st = IPV4ACD_STATE_PROBING \<or> st = IPV4ACD_STATE_WAITING_ANNOUNCE)"

definition session_inv :: "sd_ipv4acd \<Rightarrow> bool" where
  "session_inv ll =
     ((before_announce (state ll) \<longrightarrow> defend_window ll = 0)
      \<and> (state ll = IPV4ACD_STATE_STARTED \<longrightarrow> n_conflict ll = 0))"

text \<open>One round of scenario S3: start, the timer of STARTED, the timer of
  WAITING_PROBE (the first probe), a conflicting frame.\<close>

definition conflict_round :: "call list" where
  "conflict_round =
     [Start scenario_env, Timer scenario_env, Timer scenario_env, Packet scenario_env]"

text \<open>
  Scenario S4 followed by a stop: the session is configured and started, six timer
  dispatches take it to RUNNING, a conflicting frame arrives and is answered by a
  defence, and the embedder stops the session. \<open>stopped_after_defence\<close> is the
  session this run ends in.
\<close>

definition defence_then_stop :: "call list" where
  "defence_then_stop =
     configure @ [Start scenario_env,
       Timer scenario_env, Timer scenario_env, Timer scenario_env, Timer scenario_env,
       Timer scenario_env, Timer scenario_env, Packet scenario_env, Stop]"

definition stopped_after_defence :: sd_ipv4acd where
  "stopped_after_defence =
     \<lparr>n_ref = 1, state = IPV4ACD_STATE_INIT, ifindex = 2, fd = -1,
      n_iteration = 0, n_conflict = 0,
      receive_message_event_source = None, timer_event_source = None,
      defend_window = 15000000, address = scenario_address, mac_addr = scenario_mac,
      event = Some 1, event_priority = 0, callback = True\<rparr>"

section \<open>Stopping\<close>

lemma ipv4acd_reset_state: "state (ipv4acd_reset ll) = IPV4ACD_STATE_INIT"
  by (simp add: ipv4acd_reset_def ipv4acd_set_state_def)

lemma ipv4acd_reset_sources:
  "timer_event_source (ipv4acd_reset ll) = None"
  "receive_message_event_source (ipv4acd_reset ll) = None"
  "fd (ipv4acd_reset ll) = -1"
  "n_iteration (ipv4acd_reset ll) = 0"
  by (simp_all add: ipv4acd_reset_def ipv4acd_set_state_def)

lemma ipv4acd_reset_keeps:
  "callback (ipv4acd_reset ll) = callback ll"
  "n_conflict (ipv4acd_reset ll) = n_conflict ll"
  "defend_window (ipv4acd_reset ll) = defend_window ll"
  "ifindex (ipv4acd_reset ll) = ifindex ll"
  "address (ipv4acd_reset ll) = address ll"
  "mac_addr (ipv4acd_reset ll) = mac_addr ll"
  "event (ipv4acd_reset ll) = event ll"
  by (simp_all add: ipv4acd_reset_def ipv4acd_set_state_def)

text \<open>
  Claim C8. In every state, \<open>sd_ipv4acd_stop\<close> returns 0 and leaves the session in
  INIT with the timer source and the receive source released and the socket closed
  (\<open>fd = -1\<close>), and hands STOP to the callback once: the actions of the call are
  exactly one invocation of the registered callback (none when no callback is
  registered, there being nobody to tell). A second call right after does the same
  again: STOP a second time, INIT again.
\<close>

theorem sd_ipv4acd_stop_resets_and_notifies_once:
  "\<exists>ll1 ll2.
     sd_ipv4acd_stop ll
       = (0, ll1, if callback ll then [Callback SD_IPV4ACD_EVENT_STOP] else [])
   \<and> state ll1 = IPV4ACD_STATE_INIT
   \<and> timer_event_source ll1 = None
   \<and> receive_message_event_source ll1 = None
   \<and> fd ll1 = -1
   \<and> sd_ipv4acd_stop ll1
       = (0, ll2, if callback ll then [Callback SD_IPV4ACD_EVENT_STOP] else [])
   \<and> state ll2 = IPV4ACD_STATE_INIT
   \<and> timer_event_source ll2 = None
   \<and> receive_message_event_source ll2 = None
   \<and> fd ll2 = -1"
  by (simp add: sd_ipv4acd_stop_def ipv4acd_client_notify_def
        ipv4acd_reset_state ipv4acd_reset_sources ipv4acd_reset_keeps)

section \<open>One dispatch of the timer, nothing failing\<close>

lemmas usec_defs = USEC_PER_SEC_def PROBE_WAIT_USEC_def PROBE_MIN_USEC_def PROBE_MAX_USEC_def
  ANNOUNCE_WAIT_USEC_def ANNOUNCE_INTERVAL_USEC_def RATE_LIMIT_INTERVAL_USEC_def
  DEFEND_INTERVAL_USEC_def

lemma set_next_wakeup_ok:
  "no_errors e \<Longrightarrow>
   ipv4acd_set_next_wakeup e ll u r =
     Inr (0, ll\<lparr>timer_event_source :=
                  Some (event_now e + (if r > 0 then u + random_u64 e mod r else u))\<rparr>)"
  by (simp add: ipv4acd_set_next_wakeup_def no_errors_def)

lemma on_timeout_started_ok:
  assumes "state ll = IPV4ACD_STATE_STARTED" and "no_errors e"
  shows "ipv4acd_on_timeout e ll =
     Inr (0, ll\<lparr>state := IPV4ACD_STATE_WAITING_PROBE, n_iteration := 0,
               timer_event_source := Some (event_now e +
                 ((if MAX_CONFLICTS \<le> n_conflict ll then RATE_LIMIT_INTERVAL_USEC else 0)
                   + random_u64 e mod PROBE_WAIT_USEC)),
               n_conflict := (if MAX_CONFLICTS \<le> n_conflict ll then 0 else n_conflict ll)\<rparr>, [])"
  using assms
  by (simp add: ipv4acd_on_timeout_def ipv4acd_set_state_def set_next_wakeup_ok usec_defs)

lemma on_timeout_probe_more:
  assumes "state ll = IPV4ACD_STATE_WAITING_PROBE \<or> state ll = IPV4ACD_STATE_PROBING"
    and "n_iteration ll < PROBE_NUM - 2" and "no_errors e"
  shows "ipv4acd_on_timeout e ll =
     Inr (0, ll\<lparr>state := IPV4ACD_STATE_PROBING,
               n_iteration := (if state ll = IPV4ACD_STATE_PROBING then n_iteration ll + 1 else 0),
               timer_event_source := Some (event_now e +
                  (PROBE_MIN_USEC + random_u64 e mod (PROBE_MAX_USEC - PROBE_MIN_USEC)))\<rparr>,
          [Arp_send_probe (fd ll) (ifindex ll) (address ll) (mac_addr ll)])"
  using assms
  by (auto simp add: ipv4acd_on_timeout_def on_timeout_probe_def ipv4acd_set_state_def
        set_next_wakeup_ok usec_defs no_errors_def)

lemma on_timeout_probe_last:
  assumes "state ll = IPV4ACD_STATE_WAITING_PROBE \<or> state ll = IPV4ACD_STATE_PROBING"
    and "\<not> n_iteration ll < PROBE_NUM - 2" and "no_errors e"
  shows "ipv4acd_on_timeout e ll =
     Inr (0, ll\<lparr>state := IPV4ACD_STATE_WAITING_ANNOUNCE, n_iteration := 0,
               timer_event_source := Some (event_now e + ANNOUNCE_WAIT_USEC)\<rparr>,
          [Arp_send_probe (fd ll) (ifindex ll) (address ll) (mac_addr ll)])"
  using assms
  by (auto simp add: ipv4acd_on_timeout_def on_timeout_probe_def ipv4acd_set_state_def
        set_next_wakeup_ok no_errors_def)

lemma on_timeout_announce_ok:
  assumes "state ll = IPV4ACD_STATE_WAITING_ANNOUNCE
           \<or> state ll = IPV4ACD_STATE_ANNOUNCING \<and> n_iteration ll < ANNOUNCE_NUM - 1"
    and "no_errors e"
  shows "ipv4acd_on_timeout e ll =
     (if state ll = IPV4ACD_STATE_WAITING_ANNOUNCE \<or> n_iteration ll + 1 = 0 then
        Inr (0, ll\<lparr>state := IPV4ACD_STATE_ANNOUNCING,
               n_iteration := 0,
               timer_event_source := Some (event_now e + ANNOUNCE_INTERVAL_USEC),
               n_conflict := 0\<rparr>,
          Arp_send_announcement (fd ll) (ifindex ll) (address ll) (mac_addr ll)
            # (if callback ll then [Callback SD_IPV4ACD_EVENT_BIND] else []))
      else
        Inr (0, ll\<lparr>n_iteration := n_iteration ll + 1,
               timer_event_source := Some (event_now e + ANNOUNCE_INTERVAL_USEC)\<rparr>,
          [Arp_send_announcement (fd ll) (ifindex ll) (address ll) (mac_addr ll)]))"
  using assms
  by (auto simp add: ipv4acd_on_timeout_def on_timeout_announce_def ipv4acd_set_state_def
        set_next_wakeup_ok no_errors_def ipv4acd_client_notify_def linorder_not_le)

lemma on_timeout_announce_done:
  assumes "state ll = IPV4ACD_STATE_ANNOUNCING" and "\<not> n_iteration ll < ANNOUNCE_NUM - 1"
  shows "ipv4acd_on_timeout e ll =
     Inr (0, ll\<lparr>state := IPV4ACD_STATE_RUNNING, n_iteration := 0\<rparr>, [])"
  using assms
  by (auto simp add: ipv4acd_on_timeout_def ipv4acd_set_state_def linorder_not_less)


lemma exec_timer_armed:
  "timer_event_source ll \<noteq> None \<Longrightarrow> exec (Timer e) ll = ipv4acd_on_timeout e ll"
  by auto

section \<open>The probe phase and the announcement phase\<close>

text \<open>
  Claim C1. A session in STARTED whose timer is armed, driven by timer dispatches
  only (no frame is received), with no send or scheduling error: the first dispatch
  enters WAITING_PROBE and sends nothing; the second, the handler of WAITING_PROBE,
  sends the first probe and enters PROBING with \<open>n_iteration = 0\<close>; the third
  sends the second probe and leaves \<open>n_iteration = PROBE_NUM - 2\<close>; the fourth
  sends the third probe and enters WAITING_ANNOUNCE. So exactly \<open>PROBE_NUM = 3\<close>
  probes, and nothing else, go out between STARTED and WAITING_ANNOUNCE.
\<close>

theorem three_probes_from_started:
  assumes st: "state ll = IPV4ACD_STATE_STARTED"
    and armed: "timer_event_source ll \<noteq> None"
    and ok: "no_errors e1" "no_errors e2" "no_errors e3" "no_errors e4"
  shows "\<exists>l1 l2 l3 l4.
      exec_all [Timer e1] ll = Inr (l1, [])
    \<and> state l1 = IPV4ACD_STATE_WAITING_PROBE
    \<and> exec_all [Timer e1, Timer e2] ll
        = Inr (l2, [Arp_send_probe (fd ll) (ifindex ll) (address ll) (mac_addr ll)])
    \<and> state l2 = IPV4ACD_STATE_PROBING \<and> n_iteration l2 = 0
    \<and> exec_all [Timer e1, Timer e2, Timer e3] ll
        = Inr (l3, [Arp_send_probe (fd ll) (ifindex ll) (address ll) (mac_addr ll),
                    Arp_send_probe (fd ll) (ifindex ll) (address ll) (mac_addr ll)])
    \<and> state l3 = IPV4ACD_STATE_PROBING \<and> n_iteration l3 = PROBE_NUM - 2
    \<and> exec_all [Timer e1, Timer e2, Timer e3, Timer e4] ll
        = Inr (l4, [Arp_send_probe (fd ll) (ifindex ll) (address ll) (mac_addr ll),
                    Arp_send_probe (fd ll) (ifindex ll) (address ll) (mac_addr ll),
                    Arp_send_probe (fd ll) (ifindex ll) (address ll) (mac_addr ll)])
    \<and> state l4 = IPV4ACD_STATE_WAITING_ANNOUNCE
    \<and> PROBE_NUM = 3"
proof -
  let ?probe = "Arp_send_probe (fd ll) (ifindex ll) (address ll) (mac_addr ll)"
  obtain l1 where s1: "exec (Timer e1) ll = Inr (0, l1, [])"
    and p1: "state l1 = IPV4ACD_STATE_WAITING_PROBE" "n_iteration l1 = 0"
      "timer_event_source l1 \<noteq> None"
      "fd l1 = fd ll" "ifindex l1 = ifindex ll" "address l1 = address ll" "mac_addr l1 = mac_addr ll"
    using on_timeout_started_ok [OF st ok(1)] armed by simp
  obtain l2 where s2: "exec (Timer e2) l1 = Inr (0, l2, [?probe])"
    and p2: "state l2 = IPV4ACD_STATE_PROBING" "n_iteration l2 = 0"
      "timer_event_source l2 \<noteq> None"
      "fd l2 = fd ll" "ifindex l2 = ifindex ll" "address l2 = address ll" "mac_addr l2 = mac_addr ll"
    using on_timeout_probe_more [of l1 e2] p1 ok(2) by (simp add: PROBE_NUM_def)
  obtain l3 where s3: "exec (Timer e3) l2 = Inr (0, l3, [?probe])"
    and p3: "state l3 = IPV4ACD_STATE_PROBING" "n_iteration l3 = 1"
      "timer_event_source l3 \<noteq> None"
      "fd l3 = fd ll" "ifindex l3 = ifindex ll" "address l3 = address ll" "mac_addr l3 = mac_addr ll"
    using on_timeout_probe_more [of l2 e3] p2 ok(3) by (simp add: PROBE_NUM_def)
  obtain l4 where s4: "exec (Timer e4) l3 = Inr (0, l4, [?probe])"
    and p4: "state l4 = IPV4ACD_STATE_WAITING_ANNOUNCE"
    using on_timeout_probe_last [of l3 e4] p3 ok(4) by (simp add: PROBE_NUM_def)
  have "exec_all [Timer e1] ll = Inr (l1, [])"
    using s1 by simp
  moreover have "exec_all [Timer e1, Timer e2] ll = Inr (l2, [?probe])"
    using s1 s2 by simp
  moreover have "exec_all [Timer e1, Timer e2, Timer e3] ll = Inr (l3, [?probe, ?probe])"
    using s1 s2 s3 by simp
  moreover have "exec_all [Timer e1, Timer e2, Timer e3, Timer e4] ll
      = Inr (l4, [?probe, ?probe, ?probe])"
    using s1 s2 s3 s4 by simp
  moreover have "n_iteration l3 = PROBE_NUM - 2" "PROBE_NUM = 3"
    using p3 by (simp_all add: PROBE_NUM_def)
  ultimately show ?thesis
    using p1 p2 p3 p4 by blast
qed

theorem three_probes_from_started_witness:
  "state (scenario_session IPV4ACD_STATE_STARTED) = IPV4ACD_STATE_STARTED
   \<and> timer_event_source (scenario_session IPV4ACD_STATE_STARTED) \<noteq> None
   \<and> no_errors scenario_env
   \<and> (\<exists>l4. exec_all [Timer scenario_env, Timer scenario_env, Timer scenario_env,
                       Timer scenario_env] (scenario_session IPV4ACD_STATE_STARTED)
          = Inr (l4, [Arp_send_probe 3 2 scenario_address scenario_mac,
                      Arp_send_probe 3 2 scenario_address scenario_mac,
                      Arp_send_probe 3 2 scenario_address scenario_mac])
        \<and> state l4 = IPV4ACD_STATE_WAITING_ANNOUNCE)"
proof -
  have h1: "state (scenario_session IPV4ACD_STATE_STARTED) = IPV4ACD_STATE_STARTED"
    by (simp add: scenario_session_def)
  have h2: "timer_event_source (scenario_session IPV4ACD_STATE_STARTED) \<noteq> None"
    by (simp add: scenario_session_def)
  have h3: "no_errors scenario_env"
    by (simp add: no_errors_def scenario_env_def)
  have cfg: "fd (scenario_session IPV4ACD_STATE_STARTED) = 3"
    "ifindex (scenario_session IPV4ACD_STATE_STARTED) = 2"
    "address (scenario_session IPV4ACD_STATE_STARTED) = scenario_address"
    "mac_addr (scenario_session IPV4ACD_STATE_STARTED) = scenario_mac"
    by (simp_all add: scenario_session_def)
  from three_probes_from_started [OF h1 h2 h3 h3 h3 h3] show ?thesis
    using h1 h2 h3 unfolding cfg by blast
qed

text \<open>
  Claim C2. A session in WAITING_ANNOUNCE whose timer is armed, driven by timer
  dispatches only, with no send or scheduling error: the first dispatch sends an
  announcement, sets \<open>n_conflict\<close> to 0, hands BIND to the callback and enters
  ANNOUNCING with \<open>n_iteration = 0\<close>; the second sends the second announcement and
  nothing else; the third sends nothing and enters RUNNING. So exactly
  \<open>ANNOUNCE_NUM = 2\<close> announcements go out and BIND is delivered once, with the
  first of them.
\<close>

theorem two_announcements_from_waiting_announce:
  assumes st: "state ll = IPV4ACD_STATE_WAITING_ANNOUNCE"
    and armed: "timer_event_source ll \<noteq> None"
    and ok: "no_errors e1" "no_errors e2"
  shows "\<exists>l1 l2 l3.
      exec_all [Timer e1] ll
        = Inr (l1, Arp_send_announcement (fd ll) (ifindex ll) (address ll) (mac_addr ll)
                   # (if callback ll then [Callback SD_IPV4ACD_EVENT_BIND] else []))
    \<and> state l1 = IPV4ACD_STATE_ANNOUNCING \<and> n_iteration l1 = 0 \<and> n_conflict l1 = 0
    \<and> exec_all [Timer e1, Timer e2] ll
        = Inr (l2, Arp_send_announcement (fd ll) (ifindex ll) (address ll) (mac_addr ll)
                   # (if callback ll then [Callback SD_IPV4ACD_EVENT_BIND] else [])
                   @ [Arp_send_announcement (fd ll) (ifindex ll) (address ll) (mac_addr ll)])
    \<and> state l2 = IPV4ACD_STATE_ANNOUNCING \<and> n_iteration l2 = 1 \<and> n_conflict l2 = 0
    \<and> exec_all [Timer e1, Timer e2, Timer e3] ll
        = Inr (l3, Arp_send_announcement (fd ll) (ifindex ll) (address ll) (mac_addr ll)
                   # (if callback ll then [Callback SD_IPV4ACD_EVENT_BIND] else [])
                   @ [Arp_send_announcement (fd ll) (ifindex ll) (address ll) (mac_addr ll)])
    \<and> state l3 = IPV4ACD_STATE_RUNNING \<and> n_conflict l3 = 0
    \<and> ANNOUNCE_NUM = 2"
proof -
  let ?ann = "Arp_send_announcement (fd ll) (ifindex ll) (address ll) (mac_addr ll)"
  let ?bind = "if callback ll then [Callback SD_IPV4ACD_EVENT_BIND] else []"
  obtain l1 where s1: "exec (Timer e1) ll = Inr (0, l1, ?ann # ?bind)"
    and p1: "state l1 = IPV4ACD_STATE_ANNOUNCING" "n_iteration l1 = 0" "n_conflict l1 = 0"
      "timer_event_source l1 \<noteq> None"
      "fd l1 = fd ll" "ifindex l1 = ifindex ll" "address l1 = address ll" "mac_addr l1 = mac_addr ll"
    using on_timeout_announce_ok [of ll e1] st ok(1) armed by simp
  obtain l2 where s2: "exec (Timer e2) l1 = Inr (0, l2, [?ann])"
    and p2: "state l2 = IPV4ACD_STATE_ANNOUNCING" "n_iteration l2 = 1" "n_conflict l2 = 0"
      "timer_event_source l2 \<noteq> None"
    using on_timeout_announce_ok [of l1 e2] p1 ok(2) by (simp add: ANNOUNCE_NUM_def)
  obtain l3 where s3: "exec (Timer e3) l2 = Inr (0, l3, [])"
    and p3: "state l3 = IPV4ACD_STATE_RUNNING" "n_conflict l3 = 0"
    using on_timeout_announce_done [of l2 e3] p2 by (simp add: ANNOUNCE_NUM_def)
  have "exec_all [Timer e1] ll = Inr (l1, ?ann # ?bind)"
    using s1 by simp
  moreover have "exec_all [Timer e1, Timer e2] ll = Inr (l2, ?ann # ?bind @ [?ann])"
    using s1 s2 by simp
  moreover have "exec_all [Timer e1, Timer e2, Timer e3] ll = Inr (l3, ?ann # ?bind @ [?ann])"
    using s1 s2 s3 by simp
  moreover have "ANNOUNCE_NUM = 2"
    by (simp add: ANNOUNCE_NUM_def)
  ultimately show ?thesis
    using p1 p2 p3 by blast
qed


theorem two_announcements_from_waiting_announce_witness:
  "state (scenario_session IPV4ACD_STATE_WAITING_ANNOUNCE) = IPV4ACD_STATE_WAITING_ANNOUNCE
   \<and> timer_event_source (scenario_session IPV4ACD_STATE_WAITING_ANNOUNCE) \<noteq> None
   \<and> no_errors scenario_env
   \<and> (\<exists>l3. exec_all [Timer scenario_env, Timer scenario_env, Timer scenario_env]
               (scenario_session IPV4ACD_STATE_WAITING_ANNOUNCE)
          = Inr (l3, [Arp_send_announcement 3 2 scenario_address scenario_mac,
                      Callback SD_IPV4ACD_EVENT_BIND,
                      Arp_send_announcement 3 2 scenario_address scenario_mac])
        \<and> state l3 = IPV4ACD_STATE_RUNNING)"
proof -
  have h1: "state (scenario_session IPV4ACD_STATE_WAITING_ANNOUNCE)
      = IPV4ACD_STATE_WAITING_ANNOUNCE"
    by (simp add: scenario_session_def)
  have h2: "timer_event_source (scenario_session IPV4ACD_STATE_WAITING_ANNOUNCE) \<noteq> None"
    by (simp add: scenario_session_def)
  have h3: "no_errors scenario_env"
    by (simp add: no_errors_def scenario_env_def)
  have cfg: "fd (scenario_session IPV4ACD_STATE_WAITING_ANNOUNCE) = 3"
    "ifindex (scenario_session IPV4ACD_STATE_WAITING_ANNOUNCE) = 2"
    "address (scenario_session IPV4ACD_STATE_WAITING_ANNOUNCE) = scenario_address"
    "mac_addr (scenario_session IPV4ACD_STATE_WAITING_ANNOUNCE) = scenario_mac"
    "callback (scenario_session IPV4ACD_STATE_WAITING_ANNOUNCE) = True"
    by (simp_all add: scenario_session_def)
  from two_announcements_from_waiting_announce [OF h1 h2 h3 h3, of scenario_env]
  show ?thesis
    using h1 h2 h3 unfolding cfg by auto
qed

section \<open>What a stop and a conflict leave behind\<close>

lemma sd_ipv4acd_stop_result:
  "\<exists>l. sd_ipv4acd_stop ll = (0, l, if callback ll then [Callback SD_IPV4ACD_EVENT_STOP] else [])
     \<and> state l = IPV4ACD_STATE_INIT \<and> timer_event_source l = None
     \<and> receive_message_event_source l = None \<and> fd l = -1
     \<and> n_conflict l = n_conflict ll \<and> defend_window l = defend_window ll"
  by (simp add: sd_ipv4acd_stop_def ipv4acd_client_notify_def
        ipv4acd_reset_state ipv4acd_reset_sources ipv4acd_reset_keeps)

lemma handler_fail_result:
  "\<exists>l. handler_fail ll sent
        = Inr (0, l, sent @ (if callback ll then [Callback SD_IPV4ACD_EVENT_STOP] else []))
     \<and> state l = IPV4ACD_STATE_INIT \<and> timer_event_source l = None
     \<and> receive_message_event_source l = None \<and> fd l = -1
     \<and> n_conflict l = n_conflict ll \<and> defend_window l = defend_window ll"
  using sd_ipv4acd_stop_result [of ll] by (auto simp add: handler_fail_def)

lemma ipv4acd_on_conflict_result:
  "\<exists>l. ipv4acd_on_conflict ll
        = (l, if callback ll then [Callback SD_IPV4ACD_EVENT_CONFLICT] else [])
     \<and> state l = IPV4ACD_STATE_INIT \<and> timer_event_source l = None
     \<and> receive_message_event_source l = None \<and> fd l = -1
     \<and> n_conflict l = n_conflict ll + 1 \<and> defend_window l = defend_window ll"
  by (simp add: ipv4acd_on_conflict_def ipv4acd_client_notify_def
        ipv4acd_reset_state ipv4acd_reset_sources ipv4acd_reset_keeps)

section \<open>Conflicts while the address is bound\<close>

text \<open>
  Claim C3. In ANNOUNCING and in RUNNING, on a full frame whose sender protocol
  address is the session's (the clock being readable): when the time read is
  strictly after \<open>defend_window\<close> and the send succeeds, the handler sends exactly
  one announcement, sets \<open>defend_window\<close> to that time plus
  \<open>DEFEND_INTERVAL_USEC\<close> (10 s), invokes no callback and changes nothing else,
  the state included; when the time read is not after \<open>defend_window\<close>, it sends
  nothing, increments \<open>n_conflict\<close>, hands CONFLICT to the callback and leaves the
  session reset in INIT.
\<close>

theorem conflict_while_bound:
  assumes "state ll = IPV4ACD_STATE_ANNOUNCING \<or> state ll = IPV4ACD_STATE_RUNNING"
    and "recv_n e = sizeof_ether_arp"
    and "arp_spa e = address ll"
    and "event_now_r e \<ge> 0"
  shows "(event_now e > defend_window ll \<and> arp_send_r e \<ge> 0 \<longrightarrow>
            ipv4acd_on_packet e ll
              = Inr (0, ll\<lparr>defend_window := event_now e + DEFEND_INTERVAL_USEC\<rparr>,
                     [Arp_send_announcement (fd ll) (ifindex ll) (address ll) (mac_addr ll)]))
       \<and> (event_now e \<le> defend_window ll \<longrightarrow>
            (\<exists>l. ipv4acd_on_packet e ll
                    = Inr (0, l, if callback ll then [Callback SD_IPV4ACD_EVENT_CONFLICT] else [])
                \<and> state l = IPV4ACD_STATE_INIT
                \<and> n_conflict l = n_conflict ll + 1
                \<and> timer_event_source l = None
                \<and> receive_message_event_source l = None
                \<and> fd l = -1))
       \<and> DEFEND_INTERVAL_USEC = 10 * 1000000"
proof (intro conjI impI)
  assume "event_now e > defend_window ll \<and> arp_send_r e \<ge> 0"
  with assms show "ipv4acd_on_packet e ll
      = Inr (0, ll\<lparr>defend_window := event_now e + DEFEND_INTERVAL_USEC\<rparr>,
             [Arp_send_announcement (fd ll) (ifindex ll) (address ll) (mac_addr ll)])"
    by (auto simp add: ipv4acd_on_packet_def on_packet_defend_def ipv4acd_arp_conflict_def
          sizeof_ether_arp_def Let_def)
next
  assume late: "event_now e \<le> defend_window ll"
  obtain l where l: "ipv4acd_on_conflict ll
        = (l, if callback ll then [Callback SD_IPV4ACD_EVENT_CONFLICT] else [])"
    "state l = IPV4ACD_STATE_INIT" "timer_event_source l = None"
    "receive_message_event_source l = None" "fd l = -1" "n_conflict l = n_conflict ll + 1"
    using ipv4acd_on_conflict_result [of ll] by blast
  have "ipv4acd_on_packet e ll
      = Inr (0, l, if callback ll then [Callback SD_IPV4ACD_EVENT_CONFLICT] else [])"
    using assms late l(1)
    by (auto simp add: ipv4acd_on_packet_def on_packet_defend_def ipv4acd_arp_conflict_def
          sizeof_ether_arp_def Let_def)
  with l show "\<exists>l. ipv4acd_on_packet e ll
        = Inr (0, l, if callback ll then [Callback SD_IPV4ACD_EVENT_CONFLICT] else [])
      \<and> state l = IPV4ACD_STATE_INIT \<and> n_conflict l = n_conflict ll + 1
      \<and> timer_event_source l = None \<and> receive_message_event_source l = None \<and> fd l = -1"
    by blast
next
  show "DEFEND_INTERVAL_USEC = 10 * 1000000"
    by (simp add: DEFEND_INTERVAL_USEC_def USEC_PER_SEC_def)
qed

theorem conflict_while_bound_witness:
  "ipv4acd_on_packet scenario_env (scenario_session IPV4ACD_STATE_RUNNING)
     = Inr (0, (scenario_session IPV4ACD_STATE_RUNNING)\<lparr>defend_window := 15000000\<rparr>,
            [Arp_send_announcement 3 2 scenario_address scenario_mac])
   \<and> (\<exists>l. ipv4acd_on_packet scenario_env
              ((scenario_session IPV4ACD_STATE_RUNNING)\<lparr>defend_window := 15000000\<rparr>)
            = Inr (0, l, [Callback SD_IPV4ACD_EVENT_CONFLICT])
          \<and> state l = IPV4ACD_STATE_INIT \<and> n_conflict l = 1)"
proof -
  let ?s = "scenario_session IPV4ACD_STATE_RUNNING"
  let ?d = "?s\<lparr>defend_window := 15000000\<rparr>"
  have first: "ipv4acd_on_packet scenario_env ?s
     = Inr (0, ?d, [Arp_send_announcement 3 2 scenario_address scenario_mac])"
    using conflict_while_bound [of ?s scenario_env]
    by (simp add: scenario_session_def scenario_env_def sizeof_ether_arp_def
          DEFEND_INTERVAL_USEC_def USEC_PER_SEC_def)
  have second: "\<exists>l. ipv4acd_on_packet scenario_env ?d
            = Inr (0, l, [Callback SD_IPV4ACD_EVENT_CONFLICT])
          \<and> state l = IPV4ACD_STATE_INIT \<and> n_conflict l = 1"
    using conflict_while_bound [of ?d scenario_env]
    by (auto simp add: scenario_session_def scenario_env_def sizeof_ether_arp_def)
  from first second show ?thesis
    by blast
qed

section \<open>Failures inside the handlers\<close>

text \<open>
  Claim C7. In the packet handler, in every state: a frame shorter than
  \<open>struct ether_arp\<close> (28 bytes) changes nothing (the session is returned as it
  was, nothing is sent and no callback invoked), and so does a \<open>recv\<close> that fails
  with EAGAIN or EINTR; a \<open>recv\<close> that fails with any other error stops the
  session: INIT, both sources released, the socket closed, STOP to the callback.
  The same stop follows a failed send of the defence in the packet handler, a
  failed send of a probe or an announcement in the timer handler, and a failure to
  schedule the next wakeup (\<open>sd_event_add_time\<close> or
  \<open>sd_event_source_set_priority\<close>) in any state whose timer handler schedules
  one; there the frame already sent precedes STOP.
\<close>

theorem failures_in_the_handlers:
  "(0 \<le> recv_n e \<and> recv_n e < sizeof_ether_arp \<longrightarrow> ipv4acd_on_packet e ll = Inr (0, ll, []))
 \<and> (recv_n e < 0 \<and> (recv_errno e = EAGAIN \<or> recv_errno e = EINTR) \<longrightarrow>
        ipv4acd_on_packet e ll = Inr (0, ll, []))
 \<and> (recv_n e < 0 \<and> recv_errno e \<noteq> EAGAIN \<and> recv_errno e \<noteq> EINTR \<longrightarrow>
        (\<exists>l. ipv4acd_on_packet e ll
               = Inr (0, l, if callback ll then [Callback SD_IPV4ACD_EVENT_STOP] else [])
           \<and> state l = IPV4ACD_STATE_INIT \<and> timer_event_source l = None
           \<and> receive_message_event_source l = None \<and> fd l = -1))
 \<and> (recv_n e = sizeof_ether_arp
      \<and> (state ll = IPV4ACD_STATE_ANNOUNCING \<or> state ll = IPV4ACD_STATE_RUNNING)
      \<and> arp_spa e = address ll \<and> 0 \<le> event_now_r e \<and> defend_window ll < event_now e
      \<and> arp_send_r e < 0 \<longrightarrow>
        (\<exists>l. ipv4acd_on_packet e ll
               = Inr (0, l, if callback ll then [Callback SD_IPV4ACD_EVENT_STOP] else [])
           \<and> state l = IPV4ACD_STATE_INIT \<and> timer_event_source l = None
           \<and> receive_message_event_source l = None \<and> fd l = -1))
 \<and> ((state ll = IPV4ACD_STATE_WAITING_PROBE \<or> state ll = IPV4ACD_STATE_PROBING
       \<or> state ll = IPV4ACD_STATE_WAITING_ANNOUNCE
       \<or> state ll = IPV4ACD_STATE_ANNOUNCING \<and> n_iteration ll < ANNOUNCE_NUM - 1)
      \<and> arp_send_r e < 0 \<longrightarrow>
        (\<exists>l. ipv4acd_on_timeout e ll
               = Inr (0, l, if callback ll then [Callback SD_IPV4ACD_EVENT_STOP] else [])
           \<and> state l = IPV4ACD_STATE_INIT \<and> timer_event_source l = None
           \<and> receive_message_event_source l = None \<and> fd l = -1))
 \<and> (0 \<le> event_now_r e \<and> 0 \<le> arp_send_r e \<and> (add_time_r e < 0 \<or> timer_priority_r e < 0) \<longrightarrow>
      (state ll = IPV4ACD_STATE_STARTED \<longrightarrow>
        (\<exists>l. ipv4acd_on_timeout e ll
               = Inr (0, l, if callback ll then [Callback SD_IPV4ACD_EVENT_STOP] else [])
           \<and> state l = IPV4ACD_STATE_INIT \<and> timer_event_source l = None
           \<and> receive_message_event_source l = None \<and> fd l = -1))
    \<and> (state ll = IPV4ACD_STATE_WAITING_PROBE \<or> state ll = IPV4ACD_STATE_PROBING \<longrightarrow>
        (\<exists>l. ipv4acd_on_timeout e ll
               = Inr (0, l, Arp_send_probe (fd ll) (ifindex ll) (address ll) (mac_addr ll)
                            # (if callback ll then [Callback SD_IPV4ACD_EVENT_STOP] else []))
           \<and> state l = IPV4ACD_STATE_INIT \<and> timer_event_source l = None
           \<and> receive_message_event_source l = None \<and> fd l = -1))
    \<and> (state ll = IPV4ACD_STATE_WAITING_ANNOUNCE
        \<or> state ll = IPV4ACD_STATE_ANNOUNCING \<and> n_iteration ll < ANNOUNCE_NUM - 1 \<longrightarrow>
        (\<exists>l. ipv4acd_on_timeout e ll
               = Inr (0, l, Arp_send_announcement (fd ll) (ifindex ll) (address ll) (mac_addr ll)
                            # (if callback ll then [Callback SD_IPV4ACD_EVENT_STOP] else []))
           \<and> state l = IPV4ACD_STATE_INIT \<and> timer_event_source l = None
           \<and> receive_message_event_source l = None \<and> fd l = -1)))"
  (is "?short \<and> ?again \<and> ?recv \<and> ?defend \<and> ?send \<and> ?sched")
proof -
  have short: ?short
    by (simp add: ipv4acd_on_packet_def)
  have again: ?again
    by (simp add: ipv4acd_on_packet_def)
  have recv: ?recv
    using handler_fail_result [of ll "[]"] by (auto simp add: ipv4acd_on_packet_def)
  have defend: ?defend
    using handler_fail_result [of "ll\<lparr>defend_window := event_now e + DEFEND_INTERVAL_USEC\<rparr>" "[]"]
    by (auto simp add: ipv4acd_on_packet_def on_packet_defend_def ipv4acd_arp_conflict_def
          sizeof_ether_arp_def Let_def)
  have send: ?send
    using handler_fail_result [of ll "[]"]
    by (auto simp add: ipv4acd_on_timeout_def on_timeout_probe_def on_timeout_announce_def
          linorder_not_le)
  have sched: ?sched
  proof (intro impI conjI)
    assume bad: "0 \<le> event_now_r e \<and> 0 \<le> arp_send_r e
        \<and> (add_time_r e < 0 \<or> timer_priority_r e < 0)"
    then have wake: "\<exists>r<0. ipv4acd_set_next_wakeup e s u ru = Inr (r, s)" for s u ru
      by (auto simp add: ipv4acd_set_next_wakeup_def)
    {
      assume st: "state ll = IPV4ACD_STATE_STARTED"
      let ?s = "ipv4acd_set_state ll IPV4ACD_STATE_WAITING_PROBE True"
      have cb: "callback ?s = callback ll"
        by (simp add: ipv4acd_set_state_def)
      obtain r1 where r1: "r1 < 0"
          "ipv4acd_set_next_wakeup e ?s RATE_LIMIT_INTERVAL_USEC PROBE_WAIT_USEC = Inr (r1, ?s)"
        using wake by blast
      obtain r2 where r2: "r2 < 0"
          "ipv4acd_set_next_wakeup e ?s 0 PROBE_WAIT_USEC = Inr (r2, ?s)"
        using wake by blast
      have "ipv4acd_on_timeout e ll = handler_fail ?s []"
        using st r1 r2 by (simp add: ipv4acd_on_timeout_def Let_def)
      then show "\<exists>l. ipv4acd_on_timeout e ll
               = Inr (0, l, if callback ll then [Callback SD_IPV4ACD_EVENT_STOP] else [])
           \<and> state l = IPV4ACD_STATE_INIT \<and> timer_event_source l = None
           \<and> receive_message_event_source l = None \<and> fd l = -1"
        using handler_fail_result [of ?s "[]"] cb by auto
    }
    {
      assume st: "state ll = IPV4ACD_STATE_WAITING_PROBE \<or> state ll = IPV4ACD_STATE_PROBING"
      let ?p = "ipv4acd_set_state ll IPV4ACD_STATE_PROBING False"
      let ?w = "ipv4acd_set_state ll IPV4ACD_STATE_WAITING_ANNOUNCE True"
      let ?sent = "[Arp_send_probe (fd ll) (ifindex ll) (address ll) (mac_addr ll)]"
      have cb: "callback ?p = callback ll" "callback ?w = callback ll"
        by (simp_all add: ipv4acd_set_state_def)
      obtain r1 where r1: "r1 < 0"
          "ipv4acd_set_next_wakeup e ?p PROBE_MIN_USEC (PROBE_MAX_USEC - PROBE_MIN_USEC)
            = Inr (r1, ?p)"
        using wake by blast
      obtain r2 where r2: "r2 < 0"
          "ipv4acd_set_next_wakeup e ?w ANNOUNCE_WAIT_USEC 0 = Inr (r2, ?w)"
        using wake by blast
      have "ipv4acd_on_timeout e ll = handler_fail ?p ?sent
          \<or> ipv4acd_on_timeout e ll = handler_fail ?w ?sent"
        using st r1 r2 bad
        by (auto simp add: ipv4acd_on_timeout_def on_timeout_probe_def Let_def)
      then show "\<exists>l. ipv4acd_on_timeout e ll
               = Inr (0, l, Arp_send_probe (fd ll) (ifindex ll) (address ll) (mac_addr ll)
                            # (if callback ll then [Callback SD_IPV4ACD_EVENT_STOP] else []))
           \<and> state l = IPV4ACD_STATE_INIT \<and> timer_event_source l = None
           \<and> receive_message_event_source l = None \<and> fd l = -1"
        using handler_fail_result [of ?p ?sent] handler_fail_result [of ?w ?sent] cb by auto
    }
    {
      assume st: "state ll = IPV4ACD_STATE_WAITING_ANNOUNCE
        \<or> state ll = IPV4ACD_STATE_ANNOUNCING \<and> n_iteration ll < ANNOUNCE_NUM - 1"
      let ?a = "ipv4acd_set_state ll IPV4ACD_STATE_ANNOUNCING False"
      let ?sent = "[Arp_send_announcement (fd ll) (ifindex ll) (address ll) (mac_addr ll)]"
      have cb: "callback ?a = callback ll"
        by (simp_all add: ipv4acd_set_state_def)
      obtain r1 where r1: "r1 < 0"
          "ipv4acd_set_next_wakeup e ?a ANNOUNCE_INTERVAL_USEC 0 = Inr (r1, ?a)"
        using wake by blast
      have "ipv4acd_on_timeout e ll = handler_fail ?a ?sent"
        using st r1 bad
        by (auto simp add: ipv4acd_on_timeout_def on_timeout_announce_def Let_def linorder_not_le)
      then show "\<exists>l. ipv4acd_on_timeout e ll
               = Inr (0, l, Arp_send_announcement (fd ll) (ifindex ll) (address ll) (mac_addr ll)
                            # (if callback ll then [Callback SD_IPV4ACD_EVENT_STOP] else []))
           \<and> state l = IPV4ACD_STATE_INIT \<and> timer_event_source l = None
           \<and> receive_message_event_source l = None \<and> fd l = -1"
        using handler_fail_result [of ?a ?sent] cb by auto
    }
  qed
  from short again recv defend send sched show ?thesis
    by blast
qed

theorem failures_in_the_handlers_witness:
  "ipv4acd_on_packet (scenario_env\<lparr>recv_n := 20\<rparr>) (scenario_session IPV4ACD_STATE_PROBING)
     = Inr (0, scenario_session IPV4ACD_STATE_PROBING, [])
   \<and> ipv4acd_on_packet (scenario_env\<lparr>recv_n := -1, recv_errno := EAGAIN\<rparr>)
        (scenario_session IPV4ACD_STATE_PROBING)
     = Inr (0, scenario_session IPV4ACD_STATE_PROBING, [])
   \<and> (\<exists>l. ipv4acd_on_packet (scenario_env\<lparr>recv_n := -1, recv_errno := 5\<rparr>)
             (scenario_session IPV4ACD_STATE_PROBING)
            = Inr (0, l, [Callback SD_IPV4ACD_EVENT_STOP])
          \<and> state l = IPV4ACD_STATE_INIT)
   \<and> (\<exists>l. ipv4acd_on_packet (scenario_env\<lparr>arp_send_r := -5\<rparr>)
             (scenario_session IPV4ACD_STATE_RUNNING)
            = Inr (0, l, [Callback SD_IPV4ACD_EVENT_STOP])
          \<and> state l = IPV4ACD_STATE_INIT)
   \<and> (\<exists>l. ipv4acd_on_timeout (scenario_env\<lparr>arp_send_r := -5\<rparr>)
             (scenario_session IPV4ACD_STATE_PROBING)
            = Inr (0, l, [Callback SD_IPV4ACD_EVENT_STOP])
          \<and> state l = IPV4ACD_STATE_INIT)
   \<and> (\<exists>l. ipv4acd_on_timeout (scenario_env\<lparr>add_time_r := -12\<rparr>)
             (scenario_session IPV4ACD_STATE_WAITING_ANNOUNCE)
            = Inr (0, l, [Arp_send_announcement 3 2 scenario_address scenario_mac,
                          Callback SD_IPV4ACD_EVENT_STOP])
          \<and> state l = IPV4ACD_STATE_INIT)"
proof -
  have a: "ipv4acd_on_packet (scenario_env\<lparr>recv_n := 20\<rparr>) (scenario_session IPV4ACD_STATE_PROBING)
     = Inr (0, scenario_session IPV4ACD_STATE_PROBING, [])"
    using failures_in_the_handlers
      [of "scenario_env\<lparr>recv_n := 20\<rparr>" "scenario_session IPV4ACD_STATE_PROBING"]
    by (simp add: scenario_env_def sizeof_ether_arp_def)
  have b: "ipv4acd_on_packet (scenario_env\<lparr>recv_n := -1, recv_errno := EAGAIN\<rparr>)
        (scenario_session IPV4ACD_STATE_PROBING)
     = Inr (0, scenario_session IPV4ACD_STATE_PROBING, [])"
    using failures_in_the_handlers
      [of "scenario_env\<lparr>recv_n := -1, recv_errno := EAGAIN\<rparr>"
          "scenario_session IPV4ACD_STATE_PROBING"]
    by (simp add: scenario_env_def)
  have c: "\<exists>l. ipv4acd_on_packet (scenario_env\<lparr>recv_n := -1, recv_errno := 5\<rparr>)
             (scenario_session IPV4ACD_STATE_PROBING)
            = Inr (0, l, [Callback SD_IPV4ACD_EVENT_STOP])
          \<and> state l = IPV4ACD_STATE_INIT"
    using failures_in_the_handlers
      [of "scenario_env\<lparr>recv_n := -1, recv_errno := 5\<rparr>"
          "scenario_session IPV4ACD_STATE_PROBING"]
    by (auto simp add: scenario_env_def scenario_session_def EAGAIN_def EINTR_def)
  have d: "\<exists>l. ipv4acd_on_packet (scenario_env\<lparr>arp_send_r := -5\<rparr>)
             (scenario_session IPV4ACD_STATE_RUNNING)
            = Inr (0, l, [Callback SD_IPV4ACD_EVENT_STOP])
          \<and> state l = IPV4ACD_STATE_INIT"
    using failures_in_the_handlers
      [of "scenario_env\<lparr>arp_send_r := -5\<rparr>" "scenario_session IPV4ACD_STATE_RUNNING"]
    by (auto simp add: scenario_env_def scenario_session_def sizeof_ether_arp_def)
  have e: "\<exists>l. ipv4acd_on_timeout (scenario_env\<lparr>arp_send_r := -5\<rparr>)
             (scenario_session IPV4ACD_STATE_PROBING)
            = Inr (0, l, [Callback SD_IPV4ACD_EVENT_STOP])
          \<and> state l = IPV4ACD_STATE_INIT"
    using failures_in_the_handlers
      [of "scenario_env\<lparr>arp_send_r := -5\<rparr>" "scenario_session IPV4ACD_STATE_PROBING"]
    by (auto simp add: scenario_env_def scenario_session_def)
  have f: "\<exists>l. ipv4acd_on_timeout (scenario_env\<lparr>add_time_r := -12\<rparr>)
             (scenario_session IPV4ACD_STATE_WAITING_ANNOUNCE)
            = Inr (0, l, [Arp_send_announcement 3 2 scenario_address scenario_mac,
                          Callback SD_IPV4ACD_EVENT_STOP])
          \<and> state l = IPV4ACD_STATE_INIT"
    using failures_in_the_handlers
      [of "scenario_env\<lparr>add_time_r := -12\<rparr>" "scenario_session IPV4ACD_STATE_WAITING_ANNOUNCE"]
    by (auto simp add: scenario_env_def scenario_session_def)
  from a b c d e f show ?thesis
    by blast
qed

text \<open>
  \<open>sd_ipv4acd_start\<close> is not a handler: a failure there is returned to the
  caller, with the session reset and no event.
\<close>

lemma start_failure_is_returned:
  assumes "sd_ipv4acd_start e ll = Inr (r, l, acts)" and "r \<noteq> 0"
  shows "acts = [] \<and> (l = ll \<or> state l = IPV4ACD_STATE_INIT)"
  using assms
  by (auto simp add: sd_ipv4acd_start_def Let_def ipv4acd_reset_state
      split: if_splits sum.splits)

section \<open>What every operation preserves\<close>

lemma set_next_wakeup_frame:
  assumes "ipv4acd_set_next_wakeup e ll u ru = Inr (r, l)"
  shows "state l = state ll \<and> defend_window l = defend_window ll
       \<and> n_conflict l = n_conflict ll"
  using assms by (auto simp add: ipv4acd_set_next_wakeup_def split: if_splits)

lemma handler_fail_frame:
  assumes "handler_fail ll sent = Inr (r, l, acts)"
  shows "state l = IPV4ACD_STATE_INIT"
  using assms handler_fail_result [of ll sent] by auto

lemma set_state_frame:
  "state (ipv4acd_set_state ll st b) = st"
  "defend_window (ipv4acd_set_state ll st b) = defend_window ll"
  "n_conflict (ipv4acd_set_state ll st b) = n_conflict ll"
  by (auto simp add: ipv4acd_set_state_def)

lemma on_timeout_probe_frame:
  assumes "on_timeout_probe e ll = Inr (r, l, acts)"
  shows "state l = IPV4ACD_STATE_INIT
       \<or> defend_window l = defend_window ll
         \<and> (state l = IPV4ACD_STATE_PROBING \<or> state l = IPV4ACD_STATE_WAITING_ANNOUNCE)"
  using assms
  by (auto simp add: on_timeout_probe_def Let_def set_state_frame
      split: if_splits sum.splits dest!: handler_fail_frame set_next_wakeup_frame)

lemma on_timeout_announce_frame:
  assumes "on_timeout_announce e ll = Inr (r, l, acts)"
  shows "state l = IPV4ACD_STATE_INIT \<or> state l = IPV4ACD_STATE_ANNOUNCING"
  using assms
  by (auto simp add: on_timeout_announce_def Let_def set_state_frame
      split: if_splits sum.splits dest!: handler_fail_frame set_next_wakeup_frame)

lemma on_timeout_frame:
  assumes "ipv4acd_on_timeout e ll = Inr (r, l, acts)"
  shows "state l \<noteq> IPV4ACD_STATE_STARTED"
    and "before_announce (state l) \<Longrightarrow>
           before_announce (state ll) \<and> defend_window l = defend_window ll"
proof -
  have "state l = IPV4ACD_STATE_INIT \<or> state l = IPV4ACD_STATE_ANNOUNCING
      \<or> state l = IPV4ACD_STATE_RUNNING
      \<or> before_announce (state ll) \<and> defend_window l = defend_window ll
        \<and> state l \<noteq> IPV4ACD_STATE_STARTED"
  proof (cases "state ll")
    case IPV4ACD_STATE_STARTED
    with assms show ?thesis
      by (auto simp add: ipv4acd_on_timeout_def Let_def set_state_frame before_announce_def
          split: if_splits sum.splits dest!: handler_fail_frame set_next_wakeup_frame)
  next
    case IPV4ACD_STATE_WAITING_PROBE
    with assms on_timeout_probe_frame [of e ll r l acts] show ?thesis
      by (auto simp add: ipv4acd_on_timeout_def before_announce_def)
  next
    case IPV4ACD_STATE_PROBING
    with assms on_timeout_probe_frame [of e ll r l acts] show ?thesis
      by (auto simp add: ipv4acd_on_timeout_def before_announce_def)
  next
    case IPV4ACD_STATE_WAITING_ANNOUNCE
    with assms on_timeout_announce_frame [of e ll r l acts] show ?thesis
      by (auto simp add: ipv4acd_on_timeout_def)
  next
    case IPV4ACD_STATE_ANNOUNCING
    with assms on_timeout_announce_frame [of e ll r l acts] show ?thesis
      by (auto simp add: ipv4acd_on_timeout_def set_state_frame split: if_splits)
  qed (use assms in \<open>simp_all add: ipv4acd_on_timeout_def\<close>)
  then show "state l \<noteq> IPV4ACD_STATE_STARTED"
    and "before_announce (state l) \<Longrightarrow>
           before_announce (state ll) \<and> defend_window l = defend_window ll"
    by (auto simp add: before_announce_def)
qed

lemma on_packet_frame:
  assumes "ipv4acd_on_packet e ll = Inr (r, l, acts)"
  shows "l = ll \<or> state l = IPV4ACD_STATE_INIT
       \<or> state l = IPV4ACD_STATE_ANNOUNCING \<or> state l = IPV4ACD_STATE_RUNNING"
proof -
  have conflict: "ipv4acd_on_conflict ll = (l', a) \<Longrightarrow> state l' = IPV4ACD_STATE_INIT" for l' a
    using ipv4acd_on_conflict_result [of ll] by auto
  have defend: "on_packet_defend e ll = Inr (r, l, acts) \<Longrightarrow>
      l = ll \<or> state l = IPV4ACD_STATE_INIT \<or> state l = state ll"
    by (auto simp add: on_packet_defend_def Let_def
        split: if_splits prod.splits dest!: handler_fail_frame conflict)
  show ?thesis
  proof (cases "state ll")
    case IPV4ACD_STATE_ANNOUNCING
    with assms defend show ?thesis
      by (auto simp add: ipv4acd_on_packet_def split: if_splits dest!: handler_fail_frame)
  next
    case IPV4ACD_STATE_RUNNING
    with assms defend show ?thesis
      by (auto simp add: ipv4acd_on_packet_def split: if_splits dest!: handler_fail_frame)
  qed (use assms conflict in \<open>auto simp add: ipv4acd_on_packet_def
        split: if_splits prod.splits dest!: handler_fail_frame\<close>)
qed

lemma start_frame:
  assumes "sd_ipv4acd_start e ll = Inr (r, l, acts)"
  shows "l = ll \<or> state l = IPV4ACD_STATE_INIT
       \<or> state l = IPV4ACD_STATE_STARTED \<and> defend_window l = 0 \<and> n_conflict l = 0"
  using assms
  by (auto simp add: sd_ipv4acd_start_def Let_def set_state_frame ipv4acd_reset_state
      split: if_splits sum.splits dest!: set_next_wakeup_frame)

lemma exec_preserves_inv:
  assumes "session_inv ll" and "exec c ll = Inr (r, l, acts)"
  shows "session_inv l"
proof (cases c)
  case (Start e)
  with assms start_frame [of e ll r l acts] show ?thesis
    by (auto simp add: session_inv_def before_announce_def)
next
  case Stop
  with assms sd_ipv4acd_stop_result [of ll] show ?thesis
    by (auto simp add: session_inv_def before_announce_def)
next
  case (Timer e)
  with assms on_timeout_frame [of e ll r l acts] show ?thesis
    by (auto simp add: session_inv_def split: if_splits)
next
  case (Packet e)
  with assms on_packet_frame [of e ll r l acts] show ?thesis
    by (auto simp add: session_inv_def before_announce_def split: if_splits)
next
  case (Set_ifindex i)
  with assms show ?thesis
    by (auto simp add: session_inv_def sd_ipv4acd_set_ifindex_def split: if_splits)
next
  case (Set_mac a)
  with assms show ?thesis
    by (auto simp add: session_inv_def sd_ipv4acd_set_mac_def split: if_splits option.splits)
next
  case (Set_address a)
  with assms show ?thesis
    by (auto simp add: session_inv_def sd_ipv4acd_set_address_def split: if_splits option.splits)
next
  case (Set_callback cb)
  with assms show ?thesis
    by (auto simp add: session_inv_def sd_ipv4acd_set_callback_def)
next
  case (Attach_event e ev p)
  with assms show ?thesis
    by (auto simp add: session_inv_def sd_ipv4acd_attach_event_def split: if_splits option.splits)
next
  case Detach_event
  with assms show ?thesis
    by (auto simp add: session_inv_def sd_ipv4acd_detach_event_def)
qed

lemma reachable_inv: "reachable ll \<Longrightarrow> session_inv ll"
proof (induction rule: reachable.induct)
  case (created r ll)
  then show ?case
    by (auto simp add: sd_ipv4acd_new_def session_inv_def before_announce_def)
next
  case (step ll c r ll1 acts)
  then show ?case
    using exec_preserves_inv by blast
qed

section \<open>Arithmetic of the delays\<close>

lemma word_mod_million: fixes r :: "64 word" shows "r mod 1000000 < 1000000"
  by (rule word_mod_less_divisor) simp

lemma probe_gap_bounds:
  fixes r :: "64 word"
  shows "(1000000::64 word) \<le> 1000000 + r mod 1000000 \<and> 1000000 + r mod 1000000 \<le> 2000000"
proof -
  have "unat (r mod 1000000) < 1000000"
    using word_mod_million [of r] by (simp add: word_less_nat_alt)
  then show ?thesis
    by (simp add: word_le_nat_alt unat_word_ariths)
qed

section \<open>Reachable sessions\<close>

lemma reachable_new_session: "reachable new_session"
  by (rule reachable.created [of 0]) (simp add: sd_ipv4acd_new_def new_session_def)

lemma exec_all_reachable:
  "reachable ll \<Longrightarrow> exec_all cs ll = Inr (l, acts) \<Longrightarrow> reachable l"
proof (induction cs arbitrary: ll acts)
  case Nil
  then show ?case by simp
next
  case (Cons c cs)
  from Cons.prems(2) obtain r l1 a1 a2 where
    c: "exec c ll = Inr (r, l1, a1)" and rest: "exec_all cs l1 = Inr (l, a2)"
    by (auto split: sum.splits prod.splits)
  from Cons.prems(1) c have "reachable l1"
    by (rule reachable.step)
  with rest show ?case
    by (rule Cons.IH [rotated])
qed

lemma defence_then_stop_run:
  "exec_all defence_then_stop new_session
     = Inr (stopped_after_defence,
            [Arp_send_probe 3 2 scenario_address scenario_mac,
             Arp_send_probe 3 2 scenario_address scenario_mac,
             Arp_send_probe 3 2 scenario_address scenario_mac,
             Arp_send_announcement 3 2 scenario_address scenario_mac,
             Callback SD_IPV4ACD_EVENT_BIND,
             Arp_send_announcement 3 2 scenario_address scenario_mac,
             Arp_send_announcement 3 2 scenario_address scenario_mac,
             Callback SD_IPV4ACD_EVENT_STOP])"
  by code_simp

section \<open>The defence window outside ANNOUNCING and RUNNING\<close>

text \<open>
  Claim C9 says that \<open>defend_window\<close> is 0 in every reachable state other than
  RUNNING and ANNOUNCING. It is not: \<open>ipv4acd_reset\<close> leaves the field alone, so
  a session that defended its address and is then stopped (or loses the address to
  a second conflict) sits in INIT with the deadline of its last defence. The run
  \<open>defence_then_stop\<close> is one such: it ends in INIT with
  \<open>defend_window\<close> = 15 s.
\<close>

theorem defend_window_stale_in_init:
  "reachable stopped_after_defence
   \<and> state stopped_after_defence = IPV4ACD_STATE_INIT
   \<and> state stopped_after_defence \<noteq> IPV4ACD_STATE_RUNNING
   \<and> state stopped_after_defence \<noteq> IPV4ACD_STATE_ANNOUNCING
   \<and> defend_window stopped_after_defence \<noteq> 0"
  using exec_all_reachable [OF reachable_new_session defence_then_stop_run]
  by (simp add: stopped_after_defence_def)

text \<open>
  Claim C9, amended. In every reachable session in STARTED, WAITING_PROBE, PROBING
  or WAITING_ANNOUNCE (every state but INIT, ANNOUNCING and RUNNING)
  \<open>defend_window\<close> is 0, and every operation on a reachable session (a public
  call, a timer dispatch, a frame received, with the resets they contain) leads to
  a session of which this holds again: \<open>sd_ipv4acd_start\<close> sets the field to 0 and
  only a defence in ANNOUNCING or RUNNING changes it.
\<close>

theorem defend_window_zero_before_announcing:
  assumes "reachable ll"
    and "exec c ll = Inr (r, l, acts)"
  shows "(state ll = IPV4ACD_STATE_STARTED \<or> state ll = IPV4ACD_STATE_WAITING_PROBE
          \<or> state ll = IPV4ACD_STATE_PROBING \<or> state ll = IPV4ACD_STATE_WAITING_ANNOUNCE
          \<longrightarrow> defend_window ll = 0)
       \<and> (state l = IPV4ACD_STATE_STARTED \<or> state l = IPV4ACD_STATE_WAITING_PROBE
          \<or> state l = IPV4ACD_STATE_PROBING \<or> state l = IPV4ACD_STATE_WAITING_ANNOUNCE
          \<longrightarrow> defend_window l = 0)"
proof -
  from assms have "reachable l"
    by (rule reachable.step)
  then have "session_inv l"
    by (rule reachable_inv)
  moreover from assms(1) have "session_inv ll"
    by (rule reachable_inv)
  ultimately show ?thesis
    by (simp add: session_inv_def before_announce_def)
qed

lemma started_run:
  "exec_all (configure @ [Start scenario_env]) new_session
     = Inr (scenario_session IPV4ACD_STATE_STARTED, [])"
  by code_simp

lemma reachable_scenario_started: "reachable (scenario_session IPV4ACD_STATE_STARTED)"
  using exec_all_reachable [OF reachable_new_session started_run] .

theorem defend_window_zero_before_announcing_witness:
  "reachable (scenario_session IPV4ACD_STATE_STARTED)
   \<and> exec (Timer scenario_env) (scenario_session IPV4ACD_STATE_STARTED)
       = Inr (0, (scenario_session IPV4ACD_STATE_WAITING_PROBE)\<lparr>timer_event_source := Some 5456789\<rparr>, [])
   \<and> defend_window (scenario_session IPV4ACD_STATE_STARTED) = 0
   \<and> defend_window ((scenario_session IPV4ACD_STATE_WAITING_PROBE)\<lparr>timer_event_source := Some 5456789\<rparr>) = 0"
proof -
  have step: "exec (Timer scenario_env) (scenario_session IPV4ACD_STATE_STARTED)
       = Inr (0, (scenario_session IPV4ACD_STATE_WAITING_PROBE)\<lparr>timer_event_source := Some 5456789\<rparr>, [])"
    by code_simp
  from defend_window_zero_before_announcing [OF reachable_scenario_started step]
  show ?thesis
    using reachable_scenario_started step by (simp add: scenario_session_def)
qed

section \<open>The delays of the wakeups\<close>

lemma reachable_started_no_conflicts:
  "reachable ll \<Longrightarrow> state ll = IPV4ACD_STATE_STARTED \<Longrightarrow> n_conflict ll = 0"
  using reachable_inv [of ll] by (simp add: session_inv_def)

text \<open>
  Claim C5. Whatever \<open>random_u64\<close> returns, a timer handler in which nothing
  fails arms the next wakeup at the time it read plus a delay \<open>d\<close>:
  \<^item> from STARTED, in every reachable session, \<open>0 \<le> d \<le> PROBE_WAIT_USEC\<close> (1 s):
    the delay before the first probe;
  \<^item> after a probe that is not the last, \<open>PROBE_MIN_USEC \<le> d \<le> PROBE_MAX_USEC\<close>
    (1 s and 2 s): the gap between two probes;
  \<^item> after the last probe, \<open>d = ANNOUNCE_WAIT_USEC\<close> (2 s): the first announcement;
  \<^item> after an announcement that is followed by another,
    \<open>d = ANNOUNCE_INTERVAL_USEC\<close> (2 s);
  \<^item> and \<open>ipv4acd_set_next_wakeup\<close> with a random range of 0 arms the timer at the
    time read plus the base delay, whatever the random number.
  The delays are unsigned 64 bit numbers of microseconds and are compared as such.
\<close>

theorem wakeup_delays:
  assumes ok: "no_errors e"
  shows "(reachable ll \<and> state ll = IPV4ACD_STATE_STARTED \<longrightarrow>
            (\<exists>l d. ipv4acd_on_timeout e ll = Inr (0, l, [])
                \<and> state l = IPV4ACD_STATE_WAITING_PROBE
                \<and> timer_event_source l = Some (event_now e + d)
                \<and> 0 \<le> d \<and> d \<le> PROBE_WAIT_USEC))
       \<and> ((state ll = IPV4ACD_STATE_WAITING_PROBE \<or> state ll = IPV4ACD_STATE_PROBING)
            \<and> n_iteration ll < PROBE_NUM - 2 \<longrightarrow>
            (\<exists>l acts d. ipv4acd_on_timeout e ll = Inr (0, l, acts)
                \<and> state l = IPV4ACD_STATE_PROBING
                \<and> timer_event_source l = Some (event_now e + d)
                \<and> PROBE_MIN_USEC \<le> d \<and> d \<le> PROBE_MAX_USEC))
       \<and> ((state ll = IPV4ACD_STATE_WAITING_PROBE \<or> state ll = IPV4ACD_STATE_PROBING)
            \<and> \<not> n_iteration ll < PROBE_NUM - 2 \<longrightarrow>
            (\<exists>l acts. ipv4acd_on_timeout e ll = Inr (0, l, acts)
                \<and> state l = IPV4ACD_STATE_WAITING_ANNOUNCE
                \<and> timer_event_source l = Some (event_now e + ANNOUNCE_WAIT_USEC)))
       \<and> (state ll = IPV4ACD_STATE_WAITING_ANNOUNCE
            \<or> state ll = IPV4ACD_STATE_ANNOUNCING \<and> n_iteration ll < ANNOUNCE_NUM - 1 \<longrightarrow>
            (\<exists>l acts. ipv4acd_on_timeout e ll = Inr (0, l, acts)
                \<and> state l = IPV4ACD_STATE_ANNOUNCING
                \<and> timer_event_source l = Some (event_now e + ANNOUNCE_INTERVAL_USEC)))
       \<and> ipv4acd_set_next_wakeup e ll usec 0
            = Inr (0, ll\<lparr>timer_event_source := Some (event_now e + usec)\<rparr>)
       \<and> PROBE_WAIT_USEC = 1000000 \<and> PROBE_MIN_USEC = 1000000 \<and> PROBE_MAX_USEC = 2000000
       \<and> ANNOUNCE_WAIT_USEC = 2000000 \<and> ANNOUNCE_INTERVAL_USEC = 2000000"
  (is "?first \<and> ?probe \<and> ?last \<and> ?announce \<and> ?fixed \<and> ?figures")
proof -
  have vals: ?figures
    by (simp add: usec_defs)
  have first: ?first
  proof
    assume a: "reachable ll \<and> state ll = IPV4ACD_STATE_STARTED"
    then have "n_conflict ll = 0"
      using reachable_started_no_conflicts by blast
    then have "ipv4acd_on_timeout e ll =
        Inr (0, ll\<lparr>state := IPV4ACD_STATE_WAITING_PROBE, n_iteration := 0,
                   timer_event_source := Some (event_now e + random_u64 e mod PROBE_WAIT_USEC),
                   n_conflict := n_conflict ll\<rparr>, [])"
      using on_timeout_started_ok [of ll e] a ok by (simp add: MAX_CONFLICTS_def)
    moreover have "random_u64 e mod PROBE_WAIT_USEC \<le> PROBE_WAIT_USEC"
      using word_mod_million [of "random_u64 e"] by (simp add: usec_defs)
    ultimately show "\<exists>l d. ipv4acd_on_timeout e ll = Inr (0, l, [])
                \<and> state l = IPV4ACD_STATE_WAITING_PROBE
                \<and> timer_event_source l = Some (event_now e + d)
                \<and> 0 \<le> d \<and> d \<le> PROBE_WAIT_USEC"
      by auto
  qed
  have probe: ?probe
  proof
    assume a: "(state ll = IPV4ACD_STATE_WAITING_PROBE \<or> state ll = IPV4ACD_STATE_PROBING)
            \<and> n_iteration ll < PROBE_NUM - 2"
    have "PROBE_MIN_USEC \<le> PROBE_MIN_USEC + random_u64 e mod (PROBE_MAX_USEC - PROBE_MIN_USEC)
        \<and> PROBE_MIN_USEC + random_u64 e mod (PROBE_MAX_USEC - PROBE_MIN_USEC) \<le> PROBE_MAX_USEC"
      using probe_gap_bounds [of "random_u64 e"] by (simp add: usec_defs)
    then show "\<exists>l acts d. ipv4acd_on_timeout e ll = Inr (0, l, acts)
                \<and> state l = IPV4ACD_STATE_PROBING
                \<and> timer_event_source l = Some (event_now e + d)
                \<and> PROBE_MIN_USEC \<le> d \<and> d \<le> PROBE_MAX_USEC"
      using on_timeout_probe_more [of ll e] a ok by auto
  qed
  have last: ?last
    using on_timeout_probe_last [of ll e] ok by auto
  have announce: ?announce
    using on_timeout_announce_ok [of ll e] ok by auto
  have fixed: ?fixed
    using set_next_wakeup_ok [OF ok, of ll usec 0] by simp
  from first probe last announce fixed vals show ?thesis
    by blast
qed

theorem wakeup_delays_witness:
  "no_errors scenario_env
   \<and> reachable (scenario_session IPV4ACD_STATE_STARTED)
   \<and> (\<exists>l d. ipv4acd_on_timeout scenario_env (scenario_session IPV4ACD_STATE_STARTED)
               = Inr (0, l, [])
           \<and> timer_event_source l = Some (5000000 + d) \<and> d \<le> 1000000)
   \<and> (\<exists>l acts d. ipv4acd_on_timeout scenario_env (scenario_session IPV4ACD_STATE_WAITING_PROBE)
               = Inr (0, l, acts)
           \<and> timer_event_source l = Some (5000000 + d) \<and> 1000000 \<le> d \<and> d \<le> 2000000)
   \<and> (\<exists>l acts. ipv4acd_on_timeout scenario_env
                 ((scenario_session IPV4ACD_STATE_PROBING)\<lparr>n_iteration := 1\<rparr>)
               = Inr (0, l, acts)
           \<and> timer_event_source l = Some 7000000)
   \<and> (\<exists>l acts. ipv4acd_on_timeout scenario_env (scenario_session IPV4ACD_STATE_WAITING_ANNOUNCE)
               = Inr (0, l, acts)
           \<and> timer_event_source l = Some 7000000)"
proof -
  have ok: "no_errors scenario_env"
    by (simp add: no_errors_def scenario_env_def)
  have now: "event_now scenario_env = 5000000"
    by (simp add: scenario_env_def)
  have a: "\<exists>l d. ipv4acd_on_timeout scenario_env (scenario_session IPV4ACD_STATE_STARTED)
               = Inr (0, l, [])
           \<and> timer_event_source l = Some (5000000 + d) \<and> d \<le> 1000000"
    using wakeup_delays [OF ok, of "scenario_session IPV4ACD_STATE_STARTED" 0]
      reachable_scenario_started now
    by (auto simp add: scenario_session_def)
  have b: "\<exists>l acts d. ipv4acd_on_timeout scenario_env (scenario_session IPV4ACD_STATE_WAITING_PROBE)
               = Inr (0, l, acts)
           \<and> timer_event_source l = Some (5000000 + d) \<and> 1000000 \<le> d \<and> d \<le> 2000000"
    using wakeup_delays [OF ok, of "scenario_session IPV4ACD_STATE_WAITING_PROBE" 0] now
    by (auto simp add: scenario_session_def PROBE_NUM_def)
  have c: "\<exists>l acts. ipv4acd_on_timeout scenario_env
                 ((scenario_session IPV4ACD_STATE_PROBING)\<lparr>n_iteration := 1\<rparr>)
               = Inr (0, l, acts)
           \<and> timer_event_source l = Some 7000000"
    using wakeup_delays [OF ok, of "(scenario_session IPV4ACD_STATE_PROBING)\<lparr>n_iteration := 1\<rparr>" 0]
      now
    by (auto simp add: scenario_session_def PROBE_NUM_def)
  have d: "\<exists>l acts. ipv4acd_on_timeout scenario_env (scenario_session IPV4ACD_STATE_WAITING_ANNOUNCE)
               = Inr (0, l, acts)
           \<and> timer_event_source l = Some 7000000"
    using wakeup_delays [OF ok, of "scenario_session IPV4ACD_STATE_WAITING_ANNOUNCE" 0] now
    by (auto simp add: scenario_session_def)
  from ok reachable_scenario_started a b c d show ?thesis
    by blast
qed

section \<open>The rate limit\<close>

text \<open>
  The branch of the timer handler that limits the rate: were the timer of STARTED
  to find \<open>n_conflict\<close> at \<open>MAX_CONFLICTS\<close> or more, the first probe would wait
  \<open>RATE_LIMIT_INTERVAL_USEC\<close> at least, and the counter would start again at 0.
\<close>

lemma rate_limit_bounds:
  fixes r :: "64 word"
  shows "(60000000::64 word) \<le> 60000000 + r mod 1000000"
proof -
  have "unat (r mod 1000000) < 1000000"
    using word_mod_million [of r] by (simp add: word_less_nat_alt)
  then show ?thesis
    by (simp add: word_le_nat_alt unat_word_ariths)
qed

lemma rate_limit_branch:
  assumes "state ll = IPV4ACD_STATE_STARTED" and "MAX_CONFLICTS \<le> n_conflict ll"
    and "no_errors e"
  shows "\<exists>l d. ipv4acd_on_timeout e ll = Inr (0, l, [])
           \<and> state l = IPV4ACD_STATE_WAITING_PROBE \<and> n_conflict l = 0
           \<and> timer_event_source l = Some (event_now e + d)
           \<and> RATE_LIMIT_INTERVAL_USEC \<le> d"
  using on_timeout_started_ok [of ll e] assms rate_limit_bounds [of "random_u64 e"]
  by (simp add: usec_defs)

text \<open>
  Claim C4 on scenario S3. Ten times the session is started and meets a conflict
  on its first probe; then it is started an eleventh time and its timer fires in
  STARTED, with the clock at 5 s. \<open>sd_ipv4acd_start\<close> sets \<open>n_conflict\<close> to 0
  every time, so the counter stands at 1 after each of the ten rounds, never
  reaches \<open>MAX_CONFLICTS\<close>, and the eleventh start arms the timer of the first
  probe 456789 microseconds ahead: less than \<open>RATE_LIMIT_INTERVAL_USEC\<close>.
\<close>

theorem eleventh_start_is_not_delayed:
  "exec_all (configure @ concat (replicate 10 conflict_round)) new_session
     = Inr ((scenario_session IPV4ACD_STATE_INIT)
              \<lparr>fd := -1, n_conflict := 1, receive_message_event_source := None,
               timer_event_source := None\<rparr>,
            concat (replicate 10 [Arp_send_probe 3 2 scenario_address scenario_mac,
                                  Callback SD_IPV4ACD_EVENT_CONFLICT]))
   \<and> exec_all (configure @ concat (replicate 10 conflict_round)
                @ [Start scenario_env, Timer scenario_env]) new_session
     = Inr ((scenario_session IPV4ACD_STATE_WAITING_PROBE)
              \<lparr>timer_event_source := Some (event_now scenario_env + 456789)\<rparr>,
            concat (replicate 10 [Arp_send_probe 3 2 scenario_address scenario_mac,
                                  Callback SD_IPV4ACD_EVENT_CONFLICT]))
   \<and> event_now scenario_env + 456789 < event_now scenario_env + RATE_LIMIT_INTERVAL_USEC"
  by code_simp

lemma start_clears_n_conflict:
  assumes "sd_ipv4acd_start e ll = Inr (0, l, acts)"
  shows "state l = IPV4ACD_STATE_STARTED \<and> n_conflict l = 0
       \<and> receive_message_event_source l \<noteq> None \<and> timer_event_source l \<noteq> None"
  using assms
  by (auto simp add: sd_ipv4acd_start_def Let_def ipv4acd_set_state_def ipv4acd_set_next_wakeup_def
        EINVAL_def EBUSY_def
      split: if_splits sum.splits)

section \<open>A frame received in STARTED\<close>

text \<open>
  Claim C10. A successful \<open>sd_ipv4acd_start\<close> leaves the session in STARTED with
  the receive source subscribed. A full frame (28 bytes) dispatched to such a
  session reaches \<open>assert_not_reached\<close>; and in general, on a full frame, the
  packet handler reaches that assertion exactly in the states other than
  WAITING_PROBE, PROBING, WAITING_ANNOUNCE, ANNOUNCING and RUNNING, that is in
  STARTED and in INIT.
\<close>

theorem full_frame_in_started_is_not_handled:
  "(sd_ipv4acd_start e0 ll0 = Inr (0, ll, acts) \<longrightarrow>
       state ll = IPV4ACD_STATE_STARTED \<and> receive_message_event_source ll \<noteq> None)
   \<and> (state ll = IPV4ACD_STATE_STARTED \<and> receive_message_event_source ll \<noteq> None
        \<and> recv_n e = sizeof_ether_arp \<longrightarrow>
       exec (Packet e) ll = Inl Assert_not_reached)
   \<and> (recv_n e = sizeof_ether_arp \<longrightarrow>
       (ipv4acd_on_packet e ll = Inl Assert_not_reached)
        = (state ll \<noteq> IPV4ACD_STATE_WAITING_PROBE \<and> state ll \<noteq> IPV4ACD_STATE_PROBING
           \<and> state ll \<noteq> IPV4ACD_STATE_WAITING_ANNOUNCE
           \<and> state ll \<noteq> IPV4ACD_STATE_ANNOUNCING \<and> state ll \<noteq> IPV4ACD_STATE_RUNNING))"
  (is "?start \<and> ?started \<and> ?others")
proof -
  have start: ?start
    using start_clears_n_conflict [of e0 ll0 ll acts] by blast
  have others: ?others
  proof
    assume full: "recv_n e = sizeof_ether_arp"
    have conflict: "(case ipv4acd_on_conflict ll of (ll1, a) \<Rightarrow> Inr (0, ll1, a))
        \<noteq> (Inl Assert_not_reached :: abort + (int \<times> sd_ipv4acd \<times> action list))"
      by (simp split: prod.splits)
    have defend: "on_packet_defend e ll \<noteq> Inl Assert_not_reached"
      by (auto simp add: on_packet_defend_def handler_fail_def sd_ipv4acd_stop_def Let_def
          split: prod.splits)
    show "(ipv4acd_on_packet e ll = Inl Assert_not_reached)
        = (state ll \<noteq> IPV4ACD_STATE_WAITING_PROBE \<and> state ll \<noteq> IPV4ACD_STATE_PROBING
           \<and> state ll \<noteq> IPV4ACD_STATE_WAITING_ANNOUNCE
           \<and> state ll \<noteq> IPV4ACD_STATE_ANNOUNCING \<and> state ll \<noteq> IPV4ACD_STATE_RUNNING)"
      using full conflict defend
      by (cases "state ll") (simp_all add: ipv4acd_on_packet_def sizeof_ether_arp_def)
  qed
  have started: ?started
    using others by auto
  from start started others show ?thesis
    by blast
qed

theorem full_frame_in_started_is_not_handled_witness:
  "sd_ipv4acd_start scenario_env ((scenario_session IPV4ACD_STATE_INIT)
       \<lparr>fd := -1, receive_message_event_source := None, timer_event_source := None\<rparr>)
     = Inr (0, scenario_session IPV4ACD_STATE_STARTED, [])
   \<and> state (scenario_session IPV4ACD_STATE_STARTED) = IPV4ACD_STATE_STARTED
   \<and> receive_message_event_source (scenario_session IPV4ACD_STATE_STARTED) \<noteq> None
   \<and> recv_n scenario_env = sizeof_ether_arp
   \<and> exec (Packet scenario_env) (scenario_session IPV4ACD_STATE_STARTED) = Inl Assert_not_reached
   \<and> ipv4acd_on_packet scenario_env (scenario_session IPV4ACD_STATE_PROBING)
       \<noteq> Inl Assert_not_reached"
proof -
  have st: "sd_ipv4acd_start scenario_env ((scenario_session IPV4ACD_STATE_INIT)
       \<lparr>fd := -1, receive_message_event_source := None, timer_event_source := None\<rparr>)
     = Inr (0, scenario_session IPV4ACD_STATE_STARTED, [])"
    by code_simp
  have full: "recv_n scenario_env = sizeof_ether_arp"
    by (simp add: scenario_env_def sizeof_ether_arp_def)
  have a: "state (scenario_session IPV4ACD_STATE_STARTED) = IPV4ACD_STATE_STARTED
      \<and> receive_message_event_source (scenario_session IPV4ACD_STATE_STARTED) \<noteq> None"
    using full_frame_in_started_is_not_handled
      [of scenario_env _ "scenario_session IPV4ACD_STATE_STARTED" "[]" scenario_env] st
    by blast
  have b: "exec (Packet scenario_env) (scenario_session IPV4ACD_STATE_STARTED)
      = Inl Assert_not_reached"
    using full_frame_in_started_is_not_handled
      [of scenario_env _ "scenario_session IPV4ACD_STATE_STARTED" "[]" scenario_env] a full
    by blast
  have c: "ipv4acd_on_packet scenario_env (scenario_session IPV4ACD_STATE_PROBING)
       \<noteq> Inl Assert_not_reached"
    using full_frame_in_started_is_not_handled
      [of scenario_env _ "scenario_session IPV4ACD_STATE_PROBING" "[]" scenario_env] full
    by (simp add: scenario_session_def)
  from st a b c full show ?thesis
    by blast
qed

section \<open>The setters\<close>

text \<open>
  Claim C6 says that a zero MAC address or a zero IPv4 address is rejected by its
  setter, and that every setter fails with Busy while the session runs. Neither
  holds: on a new session \<open>sd_ipv4acd_set_address\<close> and \<open>sd_ipv4acd_set_mac\<close>
  store a zero value and return 0, and \<open>sd_ipv4acd_set_ifindex\<close> with the index 0
  on a running session returns \<open>-EINVAL\<close>, not \<open>-EBUSY\<close>.
\<close>

theorem setters_accept_zero_values:
  "sd_ipv4acd_set_address new_session (Some 0) = (0, new_session\<lparr>address := 0\<rparr>)
   \<and> sd_ipv4acd_set_mac new_session (Some 0) = (0, new_session\<lparr>mac_addr := 0\<rparr>)
   \<and> sd_ipv4acd_is_running (scenario_session IPV4ACD_STATE_RUNNING)
   \<and> sd_ipv4acd_set_ifindex (scenario_session IPV4ACD_STATE_RUNNING) 0
       = (- EINVAL, scenario_session IPV4ACD_STATE_RUNNING)
   \<and> - EINVAL \<noteq> - EBUSY"
  by (simp add: sd_ipv4acd_set_address_def sd_ipv4acd_set_mac_def sd_ipv4acd_set_ifindex_def
        sd_ipv4acd_is_running_def new_session_def scenario_session_def EINVAL_def EBUSY_def)

text \<open>
  Claim C6, amended. \<open>sd_ipv4acd_set_ifindex\<close> succeeds exactly when the index is
  positive and the state is INIT; \<open>sd_ipv4acd_set_mac\<close> and
  \<open>sd_ipv4acd_set_address\<close> succeed exactly when the argument is not \<open>NULL\<close> and
  the state is INIT, and then store the value given, zero or not. With a valid
  argument each setter returns \<open>-EBUSY\<close> and changes nothing while
  \<open>sd_ipv4acd_is_running\<close>. A non-positive index and a \<open>NULL\<close> argument give
  \<open>-EINVAL\<close> in every state. A zero address or a zero MAC address is refused
  later, by \<open>sd_ipv4acd_start\<close>, with \<open>-EINVAL\<close>.
\<close>

theorem setters_need_init_and_a_valid_argument:
  "(fst (sd_ipv4acd_set_ifindex ll i) = 0) = (0 < i \<and> state ll = IPV4ACD_STATE_INIT)
   \<and> (fst (sd_ipv4acd_set_mac ll m) = 0) = (m \<noteq> None \<and> state ll = IPV4ACD_STATE_INIT)
   \<and> (fst (sd_ipv4acd_set_address ll a) = 0) = (a \<noteq> None \<and> state ll = IPV4ACD_STATE_INIT)
   \<and> (0 < i \<and> state ll = IPV4ACD_STATE_INIT \<longrightarrow>
        sd_ipv4acd_set_ifindex ll i = (0, ll\<lparr>ifindex := i\<rparr>))
   \<and> (state ll = IPV4ACD_STATE_INIT \<longrightarrow>
        sd_ipv4acd_set_mac ll (Some mac) = (0, ll\<lparr>mac_addr := mac\<rparr>)
        \<and> sd_ipv4acd_set_address ll (Some ip) = (0, ll\<lparr>address := ip\<rparr>))
   \<and> (sd_ipv4acd_is_running ll \<longrightarrow>
        (0 < i \<longrightarrow> sd_ipv4acd_set_ifindex ll i = (- EBUSY, ll))
        \<and> sd_ipv4acd_set_mac ll (Some mac) = (- EBUSY, ll)
        \<and> sd_ipv4acd_set_address ll (Some ip) = (- EBUSY, ll))
   \<and> (i \<le> 0 \<longrightarrow> sd_ipv4acd_set_ifindex ll i = (- EINVAL, ll))
   \<and> sd_ipv4acd_set_mac ll None = (- EINVAL, ll)
   \<and> sd_ipv4acd_set_address ll None = (- EINVAL, ll)
   \<and> (address ll = 0 \<or> ether_addr_is_null (mac_addr ll) \<longrightarrow>
        sd_ipv4acd_start e ll = Inr (- EINVAL, ll, []))"
  by (cases m; cases a)
     (simp_all add: sd_ipv4acd_set_address_def sd_ipv4acd_set_mac_def sd_ipv4acd_set_ifindex_def
        sd_ipv4acd_is_running_def sd_ipv4acd_start_def EINVAL_def EBUSY_def)

theorem setters_need_init_and_a_valid_argument_witness:
  "sd_ipv4acd_set_ifindex new_session 2 = (0, new_session\<lparr>ifindex := 2\<rparr>)
   \<and> sd_ipv4acd_set_mac new_session (Some scenario_mac) = (0, new_session\<lparr>mac_addr := scenario_mac\<rparr>)
   \<and> sd_ipv4acd_set_address new_session (Some scenario_address)
       = (0, new_session\<lparr>address := scenario_address\<rparr>)
   \<and> sd_ipv4acd_is_running (scenario_session IPV4ACD_STATE_PROBING)
   \<and> sd_ipv4acd_set_ifindex (scenario_session IPV4ACD_STATE_PROBING) 5
       = (- EBUSY, scenario_session IPV4ACD_STATE_PROBING)
   \<and> sd_ipv4acd_set_mac (scenario_session IPV4ACD_STATE_PROBING) (Some 0)
       = (- EBUSY, scenario_session IPV4ACD_STATE_PROBING)
   \<and> sd_ipv4acd_set_address (scenario_session IPV4ACD_STATE_PROBING) (Some 0)
       = (- EBUSY, scenario_session IPV4ACD_STATE_PROBING)
   \<and> sd_ipv4acd_set_ifindex new_session 0 = (- EINVAL, new_session)
   \<and> sd_ipv4acd_start scenario_env new_session = Inr (- EINVAL, new_session, [])"
proof -
  have init: "state new_session = IPV4ACD_STATE_INIT" "address new_session = 0"
    by (simp_all add: new_session_def)
  have running: "sd_ipv4acd_is_running (scenario_session IPV4ACD_STATE_PROBING)"
    by (simp add: sd_ipv4acd_is_running_def scenario_session_def)
  show ?thesis
    using setters_need_init_and_a_valid_argument
        [of new_session 2 None None scenario_mac scenario_address scenario_env]
      setters_need_init_and_a_valid_argument
        [of "scenario_session IPV4ACD_STATE_PROBING" 5 None None 0 0 scenario_env]
      setters_need_init_and_a_valid_argument
        [of new_session 0 None None 0 0 scenario_env]
      init running
    by simp
qed

end
